theory Spec2Isabelle
  imports Main "HOL-Library.Word"
begin

section \<open>JavaScript values\<close>

text \<open>
  A JavaScript string is represented by its UTF-8 encoding, one \<^typ>\<open>char\<close> per byte:
  this is what \<open>Buffer.byteLength\<close>, \<open>req.write\<close> and \<open>encodeURIComponent\<close> work on.
  Strings are well formed (no lone surrogate). A \<open>Buffer\<close> is the list of its bytes;
  read as a string it is taken to hold UTF-8. An object is a plain object: the list of
  its own enumerable properties, with distinct keys, in the order \<open>Object.keys\<close> lists
  them.

  A number is one of two kinds. \<open>JNum n\<close> is the integer \<open>sint n\<close>, from \<open>- (2 ^ 53)\<close>
  to \<open>2 ^ 53 - 1\<close>: each of them is a double, and the language writes it in plain
  decimal digits. \<open>JDouble t\<close> is any other number (a fraction, a number of larger
  magnitude, \<open>NaN\<close>, an infinity), given by the text the language writes for it, such as
  \<open>1.5\<close>, \<open>1e+21\<close>, \<open>NaN\<close> or \<open>-Infinity\<close>; the algorithm that finds those digits
  is not modelled.
\<close>

datatype jsval =
    JUndefined
  | JNull
  | JBool bool
  | JNum "54 word"
  | JDouble string
  | JStr string
  | JBuf string
  | JArr "jsval list"
  | JObj "(string \<times> jsval) list"

text \<open>The truth value of a JavaScript value, as \<open>if (v)\<close> and \<open>!v\<close> read it.\<close>

fun truthy :: "jsval \<Rightarrow> bool" where
  "truthy JUndefined = False"
| "truthy JNull = False"
| "truthy (JBool b) = b"
| "truthy (JNum n) = (n \<noteq> 0)"
| "truthy (JDouble t) = (t \<noteq> ''NaN'')"
| "truthy (JStr s) = (s \<noteq> [])"
| "truthy (JBuf b) = True"
| "truthy (JArr xs) = True"
| "truthy (JObj kvs) = True"

text \<open>
  A property of a \<open>Record<string, string>\<close> read with \<open>obj[key]\<close>: \<open>None\<close> is
  \<open>undefined\<close>. Such a read is truthy when the entry is there and is not the empty string.
\<close>

definition truthy_str :: "string option \<Rightarrow> bool" where
  "truthy_str v = (case v of None \<Rightarrow> False | Some s \<Rightarrow> s \<noteq> [])"

section \<open>Built-ins of the language that the code calls\<close>

subsection \<open>Decimal digits: \<open>Number.prototype.toString\<close> on an integer below \<open>10 ^ 21\<close>\<close>

definition digit_char :: "nat \<Rightarrow> char" where
  "digit_char d = char_of (48 + d)"

fun toString_nat :: "nat \<Rightarrow> string" where
  "toString_nat n =
     (if n < 10 then [digit_char n] else toString_nat (n div 10) @ [digit_char (n mod 10)])"

declare toString_nat.simps [simp del]

definition toString_int :: "int \<Rightarrow> string" where
  "toString_int i = (if i < 0 then CHR ''-'' # toString_nat (nat (- i)) else toString_nat (nat i))"

subsection \<open>\<open>String(v)\<close> and the implicit conversion to a string\<close>

definition join :: "string \<Rightarrow> string list \<Rightarrow> string" where
  "join sep xs = concat (case xs of [] \<Rightarrow> [] | y # ys \<Rightarrow> y # map (\<lambda>z. sep @ z) ys)"

fun String :: "jsval \<Rightarrow> string"
  and String_elems :: "jsval list \<Rightarrow> string list" where
  "String JUndefined = ''undefined''"
| "String JNull = ''null''"
| "String (JBool b) = (if b then ''true'' else ''false'')"
| "String (JNum n) = toString_int (sint n)"
| "String (JDouble t) = t"
| "String (JStr s) = s"
| "String (JBuf b) = b"
| "String (JArr xs) = join '','' (String_elems xs)"
| "String (JObj kvs) = ''[object Object]''"
| "String_elems [] = []"
| "String_elems (x # xs) =
     (if x = JUndefined \<or> x = JNull then [] else String x) # String_elems xs"

subsection \<open>The numbers \<open>parseInt\<close> gives, as doubles\<close>

text \<open>
  \<open>parseInt\<close> gives \<open>NaN\<close>, an integer that is a double, or an infinity. An integer
  below \<open>2 ^ 53\<close> is a double. A larger one is rounded to 53 significant bits, ties to
  the even neighbour, and is infinite from \<open>2 ^ 1024\<close> on; the engine of the platform
  rounds the digits it reads in this way.
\<close>

datatype number = NaN | Finite int | PosInfinity | NegInfinity

fun bit_length :: "nat \<Rightarrow> nat" where
  "bit_length n = (if n = 0 then 0 else Suc (bit_length (n div 2)))"

declare bit_length.simps [simp del]

definition to_double :: "nat \<Rightarrow> nat option" where
  "to_double n =
     (if n < 2 ^ 53 then Some n
      else (let e = bit_length n - 53;
                q = n div 2 ^ e;
                r = n mod 2 ^ e;
                q' = (if 2 ^ e < 2 * r \<or> (2 * r = 2 ^ e \<and> odd q) then q + 1 else q)
            in if 2 ^ 1024 \<le> q' * 2 ^ e then None else Some (q' * 2 ^ e)))"

definition number_of :: "bool \<Rightarrow> nat \<Rightarrow> number" where
  "number_of negative n =
     (case to_double n of
        None \<Rightarrow> (if negative then NegInfinity else PosInfinity)
      | Some d \<Rightarrow> Finite (if negative then - int d else int d))"

text \<open>The product \<open>x * 1000\<close> of doubles, for the numbers above.\<close>

fun times_1000 :: "number \<Rightarrow> number" where
  "times_1000 NaN = NaN"
| "times_1000 (Finite i) = number_of (i < 0) (nat \<bar>i\<bar> * 1000)"
| "times_1000 PosInfinity = PosInfinity"
| "times_1000 NegInfinity = NegInfinity"

subsection \<open>\<open>parseInt(s)\<close> without a radix\<close>

text \<open>
  The white space and line terminators that \<open>parseInt\<close> skips at the start, each as
  its UTF-8 bytes: U+0009 to U+000D, U+0020, U+00A0, U+1680, U+2000 to U+200A, U+2028,
  U+2029, U+202F, U+205F, U+3000 and U+FEFF.
\<close>

definition StrWhiteSpaceChar :: "string list" where
  "StrWhiteSpaceChar =
     [[CHR 0x09], [CHR 0x0A], [CHR 0x0B], [CHR 0x0C], [CHR 0x0D], [CHR 0x20],
      [CHR 0xC2, CHR 0xA0], [CHR 0xE1, CHR 0x9A, CHR 0x80],
      [CHR 0xE2, CHR 0x80, CHR 0x80], [CHR 0xE2, CHR 0x80, CHR 0x81],
      [CHR 0xE2, CHR 0x80, CHR 0x82], [CHR 0xE2, CHR 0x80, CHR 0x83],
      [CHR 0xE2, CHR 0x80, CHR 0x84], [CHR 0xE2, CHR 0x80, CHR 0x85],
      [CHR 0xE2, CHR 0x80, CHR 0x86], [CHR 0xE2, CHR 0x80, CHR 0x87],
      [CHR 0xE2, CHR 0x80, CHR 0x88], [CHR 0xE2, CHR 0x80, CHR 0x89],
      [CHR 0xE2, CHR 0x80, CHR 0x8A], [CHR 0xE2, CHR 0x80, CHR 0xA8],
      [CHR 0xE2, CHR 0x80, CHR 0xA9], [CHR 0xE2, CHR 0x80, CHR 0xAF],
      [CHR 0xE2, CHR 0x81, CHR 0x9F], [CHR 0xE3, CHR 0x80, CHR 0x80],
      [CHR 0xEF, CHR 0xBB, CHR 0xBF]]"

definition starts_with :: "string \<Rightarrow> string \<Rightarrow> bool" where
  "starts_with s w = (take (length w) s = w)"

function trimStart :: "string \<Rightarrow> string" where
  "trimStart s =
     (case List.find (\<lambda>w. w \<noteq> [] \<and> starts_with s w) StrWhiteSpaceChar of
        None \<Rightarrow> s
      | Some w \<Rightarrow> trimStart (drop (length w) s))"
  by pat_completeness auto
termination
proof (relation "measure length")
  show "wf (measure length)" by simp
next
  fix s w :: string
  assume "List.find (\<lambda>w. w \<noteq> [] \<and> starts_with s w) StrWhiteSpaceChar = Some w"
  then have "w \<noteq> []" and "take (length w) s = w"
    by (auto simp: find_Some_iff starts_with_def)
  then have "s \<noteq> []" by auto
  with \<open>w \<noteq> []\<close> show "(drop (length w) s, s) \<in> measure length" by simp
qed

declare trimStart.simps [simp del]

text \<open>The value of a digit in the radix, \<open>None\<close> for any other character.\<close>

definition digit_value :: "nat \<Rightarrow> char \<Rightarrow> nat option" where
  "digit_value radix c =
     (let n = of_char c :: nat;
          v = (if 48 \<le> n \<and> n \<le> 57 then Some (n - 48)
               else if 97 \<le> n \<and> n \<le> 122 then Some (n - 87)
               else if 65 \<le> n \<and> n \<le> 90 then Some (n - 55)
               else None)
      in case v of None \<Rightarrow> None | Some d \<Rightarrow> if d < radix then Some d else None)"

text \<open>
  The longest prefix of digits, read in the radix: the accumulator is the value so far,
  \<open>None\<close> while no digit has been read.
\<close>

fun parse_digits :: "nat \<Rightarrow> nat option \<Rightarrow> string \<Rightarrow> nat option" where
  "parse_digits radix acc [] = acc"
| "parse_digits radix acc (c # cs) =
     (case digit_value radix c of
        None \<Rightarrow> acc
      | Some d \<Rightarrow> parse_digits radix (Some (case_option 0 (\<lambda>a. a * radix) acc + d)) cs)"

text \<open>
  \<open>parseInt\<close>: skip white space, read a sign, take radix 16 after \<open>0x\<close> or \<open>0X\<close> and
  radix 10 otherwise, read the longest prefix of digits, and give their value as a
  double. Without a digit the result is \<open>NaN\<close>.
\<close>

definition parseInt :: "string \<Rightarrow> number" where
  "parseInt inputString =
     (let s = trimStart inputString;
          neg = (s \<noteq> [] \<and> hd s = CHR ''-'');
          s1 = (if s \<noteq> [] \<and> (hd s = CHR ''+'' \<or> hd s = CHR ''-'') then tl s else s);
          hex = (starts_with s1 ''0x'' \<or> starts_with s1 ''0X'');
          radix = (if hex then 16 else 10);
          s2 = (if hex then drop 2 s1 else s1)
      in case parse_digits radix None s2 of
           None \<Rightarrow> NaN
         | Some v \<Rightarrow> number_of neg v)"

subsection \<open>\<open>encodeURIComponent(s)\<close>\<close>

definition hex_digit :: "bool \<Rightarrow> nat \<Rightarrow> char" where
  "hex_digit upper d =
     (if d < 10 then char_of (48 + d) else char_of ((if upper then 55 else 87) + d))"

text \<open>The characters left as they are: letters, digits and \<open>- _ . ! ~ * ' ( )\<close>.\<close>

definition uriUnescaped :: "char \<Rightarrow> bool" where
  "uriUnescaped c =
     (let n = of_char c :: nat
      in (48 \<le> n \<and> n \<le> 57) \<or> (65 \<le> n \<and> n \<le> 90) \<or> (97 \<le> n \<and> n \<le> 122)
         \<or> n \<in> {45, 95, 46, 33, 126, 42, 39, 40, 41})"

definition percent_encode :: "char \<Rightarrow> string" where
  "percent_encode c =
     (if uriUnescaped c then [c]
      else (let n = of_char c :: nat
            in [CHR ''%'', hex_digit True (n div 16), hex_digit True (n mod 16)]))"

definition encodeURIComponent :: "string \<Rightarrow> string" where
  "encodeURIComponent s = concat (map percent_encode s)"

subsection \<open>\<open>JSON.stringify(v)\<close>\<close>

definition quote_char :: "char \<Rightarrow> string" where
  "quote_char c =
     (let n = of_char c :: nat
      in if n = 8 then [CHR 0x5C, CHR ''b'']
         else if n = 9 then [CHR 0x5C, CHR ''t'']
         else if n = 10 then [CHR 0x5C, CHR ''n'']
         else if n = 12 then [CHR 0x5C, CHR ''f'']
         else if n = 13 then [CHR 0x5C, CHR ''r'']
         else if n = 34 then [CHR 0x5C, CHR 0x22]
         else if n = 92 then [CHR 0x5C, CHR 0x5C]
         else if n < 32 then
           [CHR 0x5C, CHR ''u'', CHR ''0'', CHR ''0'', hex_digit False (n div 16),
            hex_digit False (n mod 16)]
         else [c])"

definition QuoteJSONString :: "string \<Rightarrow> string" where
  "QuoteJSONString s = [CHR 0x22] @ concat (map quote_char s) @ [CHR 0x22]"

text \<open>
  \<open>stringify v\<close> is \<open>None\<close> where \<open>JSON.stringify\<close> gives \<open>undefined\<close>. An array
  writes \<open>null\<close> for such an element, an object leaves such a property out, a
  \<open>Buffer\<close> is written through its \<open>toJSON\<close>, and a number that is not finite is
  written \<open>null\<close>.
\<close>

fun stringify :: "jsval \<Rightarrow> string option"
  and stringify_elems :: "jsval list \<Rightarrow> string list"
  and stringify_props :: "(string \<times> jsval) list \<Rightarrow> string list" where
  "stringify JUndefined = None"
| "stringify JNull = Some ''null''"
| "stringify (JBool b) = Some (if b then ''true'' else ''false'')"
| "stringify (JNum n) = Some (toString_int (sint n))"
| "stringify (JDouble t) =
     Some (if t = ''NaN'' \<or> t = ''Infinity'' \<or> t = ''-Infinity'' then ''null'' else t)"
| "stringify (JStr s) = Some (QuoteJSONString s)"
| "stringify (JBuf b) =
     Some (''{'' @ QuoteJSONString ''type'' @ '':'' @ QuoteJSONString ''Buffer'' @ '',''
           @ QuoteJSONString ''data'' @ '':['' @ join '','' (map (\<lambda>c. toString_nat (of_char c)) b)
           @ '']}'')"
| "stringify (JArr xs) = Some (''['' @ join '','' (stringify_elems xs) @ '']'')"
| "stringify (JObj kvs) = Some (''{'' @ join '','' (stringify_props kvs) @ ''}'')"
| "stringify_elems [] = []"
| "stringify_elems (x # xs) =
     (case stringify x of None \<Rightarrow> ''null'' | Some t \<Rightarrow> t) # stringify_elems xs"
| "stringify_props [] = []"
| "stringify_props (kv # kvs) =
     (case stringify (snd kv) of
        None \<Rightarrow> stringify_props kvs
      | Some t \<Rightarrow> (QuoteJSONString (fst kv) @ '':'' @ t) # stringify_props kvs)"

definition JSON_stringify :: "jsval \<Rightarrow> jsval" where
  "JSON_stringify v = (case stringify v of None \<Rightarrow> JUndefined | Some t \<Rightarrow> JStr t)"

section \<open>The data of a request\<close>

text \<open>
  The header object of a request, \<open>Record<string, string>\<close>: the operations are
  declared to receive one, and its values are strings. The names are the keys as they
  are written: \<open>Content-Type\<close> and \<open>content-type\<close> are two entries.
\<close>

type_synonym RequestHeaders = "string \<rightharpoonup> string"

record RequestOptions =
  hostname :: string
  path :: string
  port :: number
  protocol :: string
  headers :: RequestHeaders
  req_method :: string

text \<open>
  What the \<open>URL\<close> constructor reads from a string it accepts: the host, the path, the
  query, the scheme with its colon, and the port written in the URL, if one is written
  (a port is at most 65535).
\<close>

record URL =
  url_hostname :: string
  url_pathname :: string
  url_search :: string
  url_protocol :: string
  url_written_port :: "16 word option"

text \<open>
  The \<open>port\<close> property of the \<open>URL\<close> object. The schemes \<open>ftp\<close>, \<open>http\<close>,
  \<open>https\<close>, \<open>ws\<close> and \<open>wss\<close> have a default port, and the object reports a port
  only when one is written and it is not the default of the scheme: the decimal digits
  of the port, and the empty string otherwise.
\<close>

definition default_port :: "string \<Rightarrow> nat option" where
  "default_port scheme =
     (if scheme = ''ftp:'' then Some 21
      else if scheme = ''http:'' then Some 80
      else if scheme = ''https:'' then Some 443
      else if scheme = ''ws:'' then Some 80
      else if scheme = ''wss:'' then Some 443
      else None)"

definition URL_port :: "URL \<Rightarrow> string" where
  "URL_port u =
     (case url_written_port u of
        None \<Rightarrow> []
      | Some p \<Rightarrow>
          if default_port (url_protocol u) = Some (unat p) then [] else toString_nat (unat p))"

text \<open>What the response object of the transport carries when the callback receives it.\<close>

record IncomingMessage =
  msg_headers :: "string \<rightharpoonup> string"
  msg_statusCode :: "int option"
  msg_statusMessage :: "string option"

record ClientRequestResponse =
  response :: jsval
  resp_headers :: "string \<rightharpoonup> string"
  host :: string
  resp_method :: string
  resp_path :: string
  resp_protocol :: string
  statusCode :: int
  statusMessage :: string

text \<open>
  The failures of an operation: the exception of \<open>new URL\<close>, the error object the
  transport emits, \<open>Error("Request timed out")\<close>,
  \<open>Error("Content-Type header is missing")\<close>, the exception of
  \<open>transporter.request\<close> when it refuses its options, and the range error of
  \<open>req.setTimeout\<close>.
\<close>

datatype error =
    InvalidUrl
  | TransportError string
  | RequestTimedOut
  | MissingContentType
  | RequestRefused
  | TimeoutOutOfRange

text \<open>
  The modules the code imports and does not define: the \<open>URL\<close> constructor (\<open>None\<close>
  when it throws), \<open>parseRequestBody\<close> of the request parser (\<open>None\<close> when it
  throws), and whatever makes the transport refuse the host, path, port or method of a
  request.
\<close>

record env =
  new_URL :: "string \<Rightarrow> URL option"
  parseRequestBody :: "string \<Rightarrow> string \<Rightarrow> jsval option"
  refuses_target :: "string \<Rightarrow> string \<Rightarrow> number \<Rightarrow> string \<Rightarrow> bool"

section \<open>The transport, as the code drives it\<close>

text \<open>
  The calls the code makes on the transport, in order: \<open>transporter.request(options, cb)\<close>
  on the \<open>https\<close> or the \<open>http\<close> module, \<open>req.setTimeout(ms)\<close>, \<open>req.write(data)\<close>,
  \<open>req.end()\<close> and \<open>req.destroy()\<close>. A call that throws is in the list, as its last
  entry.
\<close>

datatype transporter = Http | Https

datatype call =
    Req_request transporter RequestOptions
  | Req_setTimeout number
  | Req_write jsval
  | Req_end
  | Req_destroy

text \<open>
  The events the transport emits afterwards: \<open>error\<close> and \<open>timeout\<close> on the request,
  the call of the response callback, and \<open>data\<close>, \<open>error\<close> and \<open>end\<close> on the response.
\<close>

datatype event =
    ReqError string
  | ReqTimeout
  | ReqResponse IncomingMessage
  | ResData string
  | ResError string
  | ResEnd

text \<open>
  One operation: the promise (\<open>None\<close> while it is pending), the response the callback
  received and its chunks, the calls made on the transport so far, the timeout that is
  armed, in milliseconds, and the body the dispatcher was handed.
\<close>

record operation =
  promise :: "(error + ClientRequestResponse) option"
  res :: "IncomingMessage option"
  chunks :: "string list"
  calls :: "call list"
  armed :: "nat option"
  payload :: jsval

text \<open>A promise settles once: \<open>resolve\<close> and \<open>reject\<close> on a settled promise do nothing.\<close>

definition reject :: "error \<Rightarrow> operation \<Rightarrow> operation" where
  "reject e p = (if promise p = None then p\<lparr>promise := Some (Inl e)\<rparr> else p)"

definition resolve :: "ClientRequestResponse \<Rightarrow> operation \<Rightarrow> operation" where
  "resolve r p = (if promise p = None then p\<lparr>promise := Some (Inr r)\<rparr> else p)"

text \<open>
  The operations are \<open>async\<close> functions: an exception thrown in the body before the
  transport is reached comes out as a promise that is already rejected, with no call
  made on the transport and no body handed over.
\<close>

definition rejected_early :: "error \<Rightarrow> operation" where
  "rejected_early e =
     \<lparr>promise = Some (Inl e), res = None, chunks = [], calls = [], armed = None,
      payload = JUndefined\<rparr>"

subsection \<open>When a call on the transport throws\<close>

text \<open>
  \<open>transporter.request\<close> checks its options and throws when it refuses them: when the
  protocol is not the one of the module (\<open>http:\<close> for \<open>http\<close>, \<open>https:\<close> for
  \<open>https\<close>), when the name of a header is not a token, and when the value of a header
  has a character other than a tab, the printable ASCII characters and U+0080 to
  U+00FF. In UTF-8 the characters U+0080 to U+00FF are a byte \<open>0xC2\<close> or \<open>0xC3\<close> and
  one byte from \<open>0x80\<close> to \<open>0xBF\<close>, and every character above them begins with a byte
  from \<open>0xC4\<close> on.
\<close>

definition token_char :: "char \<Rightarrow> bool" where
  "token_char c =
     (let n = of_char c :: nat
      in (48 \<le> n \<and> n \<le> 57) \<or> (65 \<le> n \<and> n \<le> 90) \<or> (97 \<le> n \<and> n \<le> 122)
         \<or> n \<in> {94, 95, 96, 45, 33, 35, 36, 37, 38, 39, 42, 43, 46, 124, 126})"

definition checkIsHttpToken :: "string \<Rightarrow> bool" where
  "checkIsHttpToken name = (name \<noteq> [] \<and> list_all token_char name)"

definition header_value_byte :: "char \<Rightarrow> bool" where
  "header_value_byte c =
     (let n = of_char c :: nat
      in n = 9 \<or> (32 \<le> n \<and> n \<le> 126) \<or> (128 \<le> n \<and> n \<le> 191) \<or> n = 194 \<or> n = 195)"

definition checkInvalidHeaderChar :: "string \<Rightarrow> bool" where
  "checkInvalidHeaderChar val = (\<not> list_all header_value_byte val)"

definition headers_refused :: "RequestHeaders \<Rightarrow> bool" where
  "headers_refused h =
     (\<exists>name val. h name = Some val \<and> (\<not> checkIsHttpToken name \<or> checkInvalidHeaderChar val))"

definition request_throws :: "env \<Rightarrow> RequestOptions \<Rightarrow> bool" where
  "request_throws E options =
     ((protocol options \<noteq> ''https:'' \<and> protocol options \<noteq> ''http:'')
      \<or> headers_refused (headers options)
      \<or> refuses_target E (hostname options) (path options) (port options)
           (req_method options))"

text \<open>
  \<open>req.setTimeout(ms)\<close> throws a range error when the number is negative or not
  finite. Otherwise it arms the timeout: none for 0, and at most \<open>2 ^ 31 - 1\<close>
  milliseconds, the longest time a timer of the platform takes.
\<close>

fun setTimeout_throws :: "number \<Rightarrow> bool" where
  "setTimeout_throws (Finite ms) = (ms < 0)"
| "setTimeout_throws other = True"

fun setTimeout_arms :: "number \<Rightarrow> nat option" where
  "setTimeout_arms (Finite ms) = (if ms \<le> 0 then None else Some (nat (min ms 2147483647)))"
| "setTimeout_arms other = None"

section \<open>The functions of \<open>index.mjs\<close>\<close>

text \<open>
  The handlers that \<open>sendRequest\<close> and its \<open>reqCallback\<close> register. The handlers of
  the response exist only once the callback has run. The request reports the host, the
  path, the protocol and the method of the options it was made from (the field
  \<open>method\<close> of the options is \<open>req_method\<close> here). The test \<open>!contentType\<close>
  holds when the header is absent and when it is the empty string. An exception of
  \<open>parseRequestBody\<close> leaves the handler and the promise stays as it is.
\<close>

fun on_event :: "env \<Rightarrow> RequestOptions \<Rightarrow> operation \<Rightarrow> event \<Rightarrow> operation" where
  "on_event E options p (ReqError err) = reject (TransportError err) p"
| "on_event E options p ReqTimeout =
     reject RequestTimedOut (p\<lparr>calls := calls p @ [Req_destroy]\<rparr>)"
| "on_event E options p (ReqResponse r) = p\<lparr>res := Some r, chunks := []\<rparr>"
| "on_event E options p (ResData chunk) =
     (case res p of None \<Rightarrow> p | Some r \<Rightarrow> p\<lparr>chunks := chunks p @ [chunk]\<rparr>)"
| "on_event E options p (ResError err) =
     (case res p of None \<Rightarrow> p | Some r \<Rightarrow> reject (TransportError err) p)"
| "on_event E options p ResEnd =
     (case res p of
        None \<Rightarrow> p
      | Some r \<Rightarrow>
          (case msg_headers r ''content-type'' of
             None \<Rightarrow> reject MissingContentType p
           | Some contentType \<Rightarrow>
               if contentType = [] then reject MissingContentType p
               else (case parseRequestBody E (concat (chunks p)) contentType of
                       None \<Rightarrow> p
                     | Some body \<Rightarrow>
                         resolve
                           \<lparr>response = body,
                            resp_headers = msg_headers r,
                            host = hostname options,
                            resp_method = req_method options,
                            resp_path = path options,
                            resp_protocol = protocol options,
                            statusCode = (case msg_statusCode r of None \<Rightarrow> 0 | Some c \<Rightarrow> c),
                            statusMessage =
                              (case msg_statusMessage r of None \<Rightarrow> [] | Some m \<Rightarrow> m)\<rparr>
                           p)))"

text \<open>
  \<open>sendRequest\<close>. The header object is there and its values are strings, so the test
  on \<open>Request-Timeout\<close> asks whether the entry is there. \<open>timeout_ms\<close> is the number
  \<open>req.setTimeout\<close> is called with, \<open>None\<close> when it is not called.
\<close>

definition timeout_ms :: "RequestOptions \<Rightarrow> number option" where
  "timeout_ms options =
     (case headers options ''Request-Timeout'' of
        None \<Rightarrow> None
      | Some timeoutText \<Rightarrow>
          (case parseInt timeoutText of
             NaN \<Rightarrow> None
           | timeOut \<Rightarrow> Some (times_1000 timeOut)))"

text \<open>
  The rest of \<open>sendRequest\<close> once the timeout is dealt with: the handlers are
  registered, the body is written when it is truthy, the request is ended, and the
  events of the transport arrive in their order.
\<close>

definition write_end_listen ::
    "env \<Rightarrow> RequestOptions \<Rightarrow> event list \<Rightarrow> operation \<Rightarrow> operation" where
  "write_end_listen E options events p =
     foldl (on_event E options)
       (p\<lparr>calls := calls p @ (if truthy (payload p) then [Req_write (payload p)] else [])
                     @ [Req_end]\<rparr>)
       events"

text \<open>
  The calls run inside the executor of the promise: when one of them throws, the
  promise is rejected with the exception, the statements after it do not run and no
  handler is registered, so no event reaches the operation.
\<close>

definition sendRequest :: "env \<Rightarrow> RequestOptions \<Rightarrow> jsval \<Rightarrow> event list \<Rightarrow> operation" where
  "sendRequest E options postData events =
     (let transporter = (if protocol options = ''https:'' then Https else Http);
          p0 = \<lparr>promise = None, res = None, chunks = [],
                calls = [Req_request transporter options], armed = None,
                payload = postData\<rparr>
      in if request_throws E options then p0\<lparr>promise := Some (Inl RequestRefused)\<rparr>
         else (case timeout_ms options of
                 None \<Rightarrow> write_end_listen E options events p0
               | Some ms \<Rightarrow>
                   (let p1 = p0\<lparr>calls := calls p0 @ [Req_setTimeout ms]\<rparr>
                    in if setTimeout_throws ms
                       then p1\<lparr>promise := Some (Inl TimeoutOutOfRange)\<rparr>
                       else write_end_listen E options events
                              (p1\<lparr>armed := setTimeout_arms ms\<rparr>))))"

text \<open>The exception that ends \<open>sendRequest\<close> while it sets the request up, if there is one.\<close>

definition setup_failure :: "env \<Rightarrow> RequestOptions \<Rightarrow> error option" where
  "setup_failure E options =
     (if request_throws E options then Some RequestRefused
      else (case timeout_ms options of
              None \<Rightarrow> None
            | Some ms \<Rightarrow> if setTimeout_throws ms then Some TimeoutOutOfRange else None))"

text \<open>
  \<open>sendPost\<close>: the header object after the two assignments, then the request. The
  length of a string is the length of its UTF-8 bytes.
\<close>

definition sendPost_headers :: "RequestHeaders \<Rightarrow> jsval \<Rightarrow> string \<Rightarrow> RequestHeaders" where
  "sendPost_headers h data contentType =
     (let h1 = (case data of
                  JBuf b \<Rightarrow> h(''Content-Length'' \<mapsto> toString_nat (length b))
                | JStr s \<Rightarrow> h(''Content-Length'' \<mapsto> toString_nat (length s))
                | _ \<Rightarrow> h(''Content-Length'' \<mapsto> ''0''))
      in if contentType \<noteq> [] \<and> \<not> truthy_str (h1 ''Content-Type'')
         then h1(''Content-Type'' \<mapsto> contentType) else h1)"

definition sendPost ::
    "env \<Rightarrow> RequestOptions \<Rightarrow> jsval \<Rightarrow> string \<Rightarrow> event list \<Rightarrow> operation" where
  "sendPost E options data contentType events =
     sendRequest E (options\<lparr>headers := sendPost_headers (headers options) data contentType\<rparr>)
       data events"

definition makeReqOptions ::
    "env \<Rightarrow> string \<Rightarrow> RequestHeaders \<Rightarrow> string \<Rightarrow> error + RequestOptions" where
  "makeReqOptions E url hdrs meth =
     (case new_URL E url of
        None \<Rightarrow> Inl InvalidUrl
      | Some urlObj \<Rightarrow>
          Inr \<lparr>hostname = url_hostname urlObj,
               path = url_pathname urlObj @ url_search urlObj,
               port = (if URL_port urlObj \<noteq> [] then parseInt (URL_port urlObj)
                       else if url_protocol urlObj = ''https:'' then Finite 443
                       else Finite 80),
               protocol = url_protocol urlObj,
               headers = hdrs,
               req_method = meth\<rparr>)"

definition postPut ::
    "env \<Rightarrow> string \<Rightarrow> string \<Rightarrow> jsval \<Rightarrow> RequestHeaders \<Rightarrow> event list \<Rightarrow> operation" where
  "postPut E meth url data hdrs events =
     (case makeReqOptions E url hdrs meth of
        Inl e \<Rightarrow> rejected_early e
      | Inr options \<Rightarrow>
          (case data of
             JNull \<Rightarrow> sendPost E options JNull [] events
           | JUndefined \<Rightarrow> sendPost E options JNull [] events
           | JBuf b \<Rightarrow> sendPost E options data ''application/octet-stream'' events
           | JArr xs \<Rightarrow>
               sendPost E options (JSON_stringify data) ''application/json;charset=utf-8'' events
           | JObj kvs \<Rightarrow>
               sendPost E options (JSON_stringify data) ''application/json;charset=utf-8'' events
           | JStr s \<Rightarrow> sendPost E options data ''text/plain;charset=utf-8'' events
           | _ \<Rightarrow> sendPost E options (JStr (String data)) ''text/plain;charset=utf-8'' events))"

definition requestHead :: "env \<Rightarrow> string \<Rightarrow> RequestHeaders \<Rightarrow> event list \<Rightarrow> operation" where
  "requestHead E url hdrs events =
     (case makeReqOptions E url hdrs ''HEAD'' of
        Inl e \<Rightarrow> rejected_early e
      | Inr options \<Rightarrow> sendRequest E options JNull events)"

definition requestGet :: "env \<Rightarrow> string \<Rightarrow> RequestHeaders \<Rightarrow> event list \<Rightarrow> operation" where
  "requestGet E url hdrs events =
     (case makeReqOptions E url hdrs ''GET'' of
        Inl e \<Rightarrow> rejected_early e
      | Inr options \<Rightarrow> sendRequest E options JNull events)"

definition requestPost ::
    "env \<Rightarrow> string \<Rightarrow> jsval \<Rightarrow> RequestHeaders \<Rightarrow> event list \<Rightarrow> operation" where
  "requestPost E url data hdrs events = postPut E ''POST'' url data hdrs events"

definition requestPut ::
    "env \<Rightarrow> string \<Rightarrow> jsval \<Rightarrow> RequestHeaders \<Rightarrow> event list \<Rightarrow> operation" where
  "requestPut E url data hdrs events = postPut E ''PUT'' url data hdrs events"

definition requestJson ::
    "env \<Rightarrow> string \<Rightarrow> jsval \<Rightarrow> RequestHeaders \<Rightarrow> event list \<Rightarrow> operation" where
  "requestJson E url data hdrs events =
     (case makeReqOptions E url hdrs ''POST'' of
        Inl e \<Rightarrow> rejected_early e
      | Inr options \<Rightarrow>
          sendPost E options (JSON_stringify data) ''application/json;charset=utf-8'' events)"

text \<open>
  The loop of \<open>requestForm\<close> over \<open>Object.keys(formData)\<close>: each turn pushes one
  \<open>key=value\<close> text onto \<open>params\<close>. \<open>formData[param]\<close> reads the property of that name.
\<close>

definition Object_keys :: "(string \<times> jsval) list \<Rightarrow> string list" where
  "Object_keys obj = map fst obj"

definition get_prop :: "(string \<times> jsval) list \<Rightarrow> string \<Rightarrow> jsval" where
  "get_prop obj k = (case map_of obj k of None \<Rightarrow> JUndefined | Some v \<Rightarrow> v)"

fun form_params :: "(string \<times> jsval) list \<Rightarrow> string list \<Rightarrow> string list \<Rightarrow> string list" where
  "form_params formData params [] = params"
| "form_params formData params (param # rest) =
     form_params formData
       (params @ [encodeURIComponent param @ ''=''
                  @ encodeURIComponent (String (get_prop formData param))])
       rest"

definition requestForm ::
    "env \<Rightarrow> string \<Rightarrow> (string \<times> jsval) list \<Rightarrow> RequestHeaders \<Rightarrow> event list \<Rightarrow> operation" where
  "requestForm E url formData hdrs events =
     (case makeReqOptions E url hdrs ''POST'' of
        Inl e \<Rightarrow> rejected_early e
      | Inr options \<Rightarrow>
          (let params = form_params formData [] (Object_keys formData);
               queryText = join ''&'' params;
               formHeader = ''application/x-www-form-urlencoded''
           in sendPost E options (JStr queryText) formHeader events))"

section \<open>What an operation did\<close>

text \<open>The header object each \<open>transporter.request\<close> call was given.\<close>

fun sent_headers :: "call list \<Rightarrow> RequestHeaders list" where
  "sent_headers [] = []"
| "sent_headers (Req_request t options # cs) = headers options # sent_headers cs"
| "sent_headers (c # cs) = sent_headers cs"

text \<open>The body bytes written to the request, in order.\<close>

fun written :: "call list \<Rightarrow> string" where
  "written [] = []"
| "written (Req_write (JBuf b) # cs) = b @ written cs"
| "written (Req_write (JStr s) # cs) = s @ written cs"
| "written (c # cs) = written cs"

text \<open>The value of one header in each header object handed to the transport.\<close>

definition sent_header :: "string \<Rightarrow> call list \<Rightarrow> string option list" where
  "sent_header k cs = map (\<lambda>h. h k) (sent_headers cs)"

text \<open>The bytes of a body: those of a buffer or of a text, and none otherwise.\<close>

fun payload_bytes :: "jsval \<Rightarrow> string" where
  "payload_bytes (JBuf b) = b"
| "payload_bytes (JStr s) = s"
| "payload_bytes other = []"

section \<open>A stand-in for the imported modules\<close>

text \<open>The address the repository's tests post to.\<close>

definition example_url :: string where
  "example_url = ''https://httpbin.org/post?foo=bar''"

text \<open>
  Used for the examples only: a \<open>URL\<close> constructor that knows the address of the
  repository's tests, one local address with a port and one secure web socket address
  that writes the default port of its scheme, and throws on every other string; a body
  parser that hands the bytes back as text; and a transport that refuses no target.
\<close>

definition example_env :: env where
  "example_env =
     \<lparr>new_URL =
        (\<lambda>url. if url = example_url
               then Some \<lparr>url_hostname = ''httpbin.org'', url_pathname = ''/post'',
                          url_search = ''?foo=bar'', url_protocol = ''https:'',
                          url_written_port = None\<rparr>
               else if url = ''http://localhost:8080/api''
               then Some \<lparr>url_hostname = ''localhost'', url_pathname = ''/api'',
                          url_search = [], url_protocol = ''http:'',
                          url_written_port = Some 8080\<rparr>
               else if url = ''wss://example.com:443/''
               then Some \<lparr>url_hostname = ''example.com'', url_pathname = ''/'',
                          url_search = [], url_protocol = ''wss:'',
                          url_written_port = Some 443\<rparr>
               else None),
      parseRequestBody = (\<lambda>body contentType. Some (JStr body)),
      refuses_target = (\<lambda>hostname path port meth. False)\<rparr>"

definition example_options :: RequestOptions where
  "example_options =
     \<lparr>hostname = ''httpbin.org'', path = ''/post?foo=bar'', port = Finite 443,
      protocol = ''https:'', headers = [''Request-Timeout'' \<mapsto> ''5''], req_method = ''GET''\<rparr>"

text \<open>A response with status 200 and no \<open>content-type\<close> header.\<close>

definition example_message :: IncomingMessage where
  "example_message =
     \<lparr>msg_headers = [''content-length'' \<mapsto> ''2''], msg_statusCode = Some 200,
      msg_statusMessage = Some ''OK''\<rparr>"

section \<open>Decimal digits and \<open>parseInt\<close>\<close>

lemma toString_nat_0: "toString_nat 0 = ''0''"
  by code_simp

lemma toString_nat_not_Nil: "toString_nat n \<noteq> []"
  by (subst toString_nat.simps) simp

lemma toString_nat_digits:
  "c \<in> set (toString_nat n) \<Longrightarrow> 48 \<le> (of_char c :: nat) \<and> (of_char c :: nat) \<le> 57"
proof (induction n rule: toString_nat.induct)
  case (1 n)
  show ?case
  proof (cases "n < 10")
    case True
    with "1.prems" show ?thesis
      by (subst (asm) toString_nat.simps) (simp add: digit_char_def)
  next
    case False
    have "n mod 10 < 10" by simp
    then have last: "48 \<le> (of_char (digit_char (n mod 10)) :: nat)
        \<and> (of_char (digit_char (n mod 10)) :: nat) \<le> 57"
      unfolding digit_char_def by (simp add: of_char_of)
    from "1.prems" False have "c \<in> set (toString_nat (n div 10)) \<or> c = digit_char (n mod 10)"
      by (subst (asm) toString_nat.simps) auto
    with "1.IH" [OF False] last show ?thesis by blast
  qed
qed

lemma digit_value_decimal:
  "48 \<le> (of_char c :: nat) \<Longrightarrow> (of_char c :: nat) \<le> 57
   \<Longrightarrow> digit_value 10 c = Some (of_char c - 48)"
  by (simp add: digit_value_def Let_def)

lemma digit_value_digit_char: "d < 10 \<Longrightarrow> digit_value 10 (digit_char d) = Some d"
  by (simp add: digit_value_def Let_def digit_char_def)

lemma parse_digits_append:
  "(\<And>c. c \<in> set xs \<Longrightarrow> digit_value r c \<noteq> None)
   \<Longrightarrow> parse_digits r acc (xs @ ys) = parse_digits r (parse_digits r acc xs) ys"
proof (induction xs arbitrary: acc)
  case Nil
  show ?case by simp
next
  case (Cons c xs)
  from Cons.prems obtain d where d: "digit_value r c = Some d" by fastforce
  show ?case
    using Cons.IH Cons.prems by (simp add: d)
qed

lemma parse_digits_toString_nat: "parse_digits 10 None (toString_nat n) = Some n"
proof (induction n rule: toString_nat.induct)
  case (1 n)
  show ?case
  proof (cases "n < 10")
    case True
    then show ?thesis
      by (subst toString_nat.simps) (simp add: digit_value_digit_char)
  next
    case False
    have digits: "digit_value 10 c \<noteq> None" if "c \<in> set (toString_nat (n div 10))" for c
      using toString_nat_digits [OF that] by (simp add: digit_value_decimal)
    have "parse_digits 10 None (toString_nat (n div 10) @ [digit_char (n mod 10)])
        = parse_digits 10 (Some (n div 10)) [digit_char (n mod 10)]"
      using digits by (simp add: parse_digits_append "1.IH" [OF False])
    also have "\<dots> = Some (n div 10 * 10 + n mod 10)"
      by (simp add: digit_value_digit_char)
    finally show ?thesis
      using False by (subst toString_nat.simps) simp
  qed
qed

lemma white_space_head:
  "w \<in> set StrWhiteSpaceChar
   \<Longrightarrow> \<exists>x xs. w = x # xs \<and> ((of_char x :: nat) \<le> 32 \<or> 128 \<le> (of_char x :: nat))"
  unfolding StrWhiteSpaceChar_def by (elim set_ConsD [elim_format] disjE) simp_all

lemma trimStart_printable:
  assumes "32 < (of_char c :: nat)" and "(of_char c :: nat) < 128"
  shows "trimStart (c # cs) = c # cs"
proof -
  have "\<not> starts_with (c # cs) w" if "w \<in> set StrWhiteSpaceChar" for w
  proof -
    obtain x xs where w: "w = x # xs"
      and x: "(of_char x :: nat) \<le> 32 \<or> 128 \<le> (of_char x :: nat)"
      using white_space_head [OF \<open>w \<in> set StrWhiteSpaceChar\<close>] by blast
    from x assms have "x \<noteq> c" by auto
    then show ?thesis by (simp add: starts_with_def w)
  qed
  then have "List.find (\<lambda>w. w \<noteq> [] \<and> starts_with (c # cs) w) StrWhiteSpaceChar = None"
    by (simp add: find_None_iff)
  then show ?thesis
    by (subst trimStart.simps) simp
qed

lemma toString_nat_Cons:
  obtains c cs where "toString_nat n = c # cs"
    and "48 \<le> (of_char c :: nat)" and "(of_char c :: nat) \<le> 57"
    and "\<not> starts_with (c # cs) ''0x''" and "\<not> starts_with (c # cs) ''0X''"
proof -
  obtain c cs where s: "toString_nat n = c # cs"
    using toString_nat_not_Nil [of n] by (cases "toString_nat n") auto
  have c: "48 \<le> (of_char c :: nat)" "(of_char c :: nat) \<le> 57"
    using toString_nat_digits [of c n] by (simp_all add: s)
  have "x \<noteq> CHR ''x'' \<and> x \<noteq> CHR ''X''" if "x \<in> set cs" for x
    using toString_nat_digits [of x n] that by (auto simp: s)
  then have "\<not> starts_with (c # cs) ''0x''" "\<not> starts_with (c # cs) ''0X''"
    by (cases cs; auto simp: starts_with_def)+
  with s c that show ?thesis by blast
qed

lemma to_double_small: "n < 2 ^ 53 \<Longrightarrow> to_double n = Some n"
  by (simp add: to_double_def)

lemma bit_length_0: "bit_length 0 = 0"
  by (simp add: bit_length.simps)

lemma bit_length_power2: "bit_length (2 ^ k) = Suc k"
proof (induction k)
  case 0
  have "bit_length (Suc 0) = Suc (bit_length 0)"
    by (subst bit_length.simps) simp
  then show ?case
    by (simp add: bit_length_0)
next
  case (Suc k)
  then show ?case
    by (subst bit_length.simps) simp
qed

lemma to_double_2_53: "to_double (2 ^ 53) = Some (2 ^ 53)"
proof -
  have "bit_length (2 ^ 53) - 53 = 1"
    unfolding bit_length_power2 by simp
  then show ?thesis
    unfolding to_double_def Let_def by simp
qed

lemma to_double_exact: "n \<le> 2 ^ 53 \<Longrightarrow> to_double n = Some n"
  using to_double_small [of n] to_double_2_53 by (cases "n = 2 ^ 53") simp_all

lemma parseInt_toString_nat:
  assumes "n < 2 ^ 53"
  shows "parseInt (toString_nat n) = Finite (int n)"
proof -
  obtain c cs where s: "toString_nat n = c # cs"
    and c: "48 \<le> (of_char c :: nat)" "(of_char c :: nat) \<le> 57"
    and nohex: "\<not> starts_with (c # cs) ''0x''" "\<not> starts_with (c # cs) ''0X''"
    by (rule toString_nat_Cons)
  have trim: "trimStart (c # cs) = c # cs"
    using c by (intro trimStart_printable) auto
  have sign: "c \<noteq> CHR ''-''" "c \<noteq> CHR ''+''"
    using c by auto
  have "parse_digits 10 None (c # cs) = Some n"
    using parse_digits_toString_nat [of n] by (simp only: s)
  then show ?thesis
    unfolding parseInt_def s trim Let_def using sign nohex
    by (simp add: number_of_def to_double_small [OF assms])
qed

lemma parseInt_toString_int:
  assumes "\<bar>i\<bar> \<le> 2 ^ 53"
  shows "parseInt (toString_int i) = Finite i"
proof (cases "i < 0")
  case False
  with assms have "nat i < 2 ^ 53 \<or> nat i = 2 ^ 53"
    by (auto simp: nat_less_iff nat_eq_iff)
  then have n: "nat i \<le> 2 ^ 53" by auto
  obtain c cs where s: "toString_nat (nat i) = c # cs"
    and c: "48 \<le> (of_char c :: nat)" "(of_char c :: nat) \<le> 57"
    and nohex: "\<not> starts_with (c # cs) ''0x''" "\<not> starts_with (c # cs) ''0X''"
    by (rule toString_nat_Cons)
  have trim: "trimStart (c # cs) = c # cs"
    using c by (intro trimStart_printable) auto
  have sign: "c \<noteq> CHR ''-''" "c \<noteq> CHR ''+''"
    using c by auto
  have "parse_digits 10 None (c # cs) = Some (nat i)"
    using parse_digits_toString_nat [of "nat i"] by (simp only: s)
  then have "parseInt (c # cs) = Finite (int (nat i))"
    unfolding parseInt_def trim Let_def using sign nohex
    by (simp add: number_of_def to_double_exact [OF n])
  with False show ?thesis
    by (simp add: toString_int_def s)
next
  case True
  define n where "n = nat (- i)"
  from assms True have "n < 2 ^ 53 \<or> n = 2 ^ 53"
    by (auto simp: n_def nat_less_iff nat_eq_iff)
  then have n: "n \<le> 2 ^ 53" by auto
  obtain c cs where s: "toString_nat n = c # cs"
    and c: "48 \<le> (of_char c :: nat)" "(of_char c :: nat) \<le> 57"
    and nohex: "\<not> starts_with (c # cs) ''0x''" "\<not> starts_with (c # cs) ''0X''"
    by (rule toString_nat_Cons)
  have trim: "trimStart (CHR ''-'' # c # cs) = CHR ''-'' # c # cs"
    by (intro trimStart_printable) simp_all
  have "parse_digits 10 None (c # cs) = Some n"
    using parse_digits_toString_nat [of n] by (simp only: s)
  then have "parseInt (CHR ''-'' # c # cs) = Finite (- int n)"
    unfolding parseInt_def trim Let_def using nohex
    by (simp add: number_of_def to_double_exact [OF n])
  with True show ?thesis
    by (simp add: toString_int_def n_def [symmetric] s) (simp add: n_def)
qed

lemma t5: "toString_nat 5 = ''5''" by code_simp

lemma parseInt_5: "parseInt ''5'' = Finite 5"
proof -
  have "(5::nat) < 2 ^ 53" by simp
  from parseInt_toString_nat [OF this] show ?thesis by (simp add: t5)
qed


lemma tm3: "toString_int (- 3) = ''-3''" by (simp add: toString_int_def) code_simp

lemma parseInt_minus_3: "parseInt ''-3'' = Finite (- 3)"
proof -
  have "\<bar>- 3 :: int\<bar> \<le> 2 ^ 53" by simp
  from parseInt_toString_int [OF this] show ?thesis by (simp add: tm3)
qed

lemma parseInt_0: "parseInt ''0'' = Finite 0"
proof -
  have "(0::nat) < 2 ^ 53" by simp
  from parseInt_toString_nat [OF this] show ?thesis by (simp add: toString_nat_0)
qed


lemma times_1000_small:
  assumes "\<bar>i\<bar> * 1000 < 2 ^ 53"
  shows "times_1000 (Finite i) = Finite (i * 1000)"
proof -
  have "int (nat \<bar>i\<bar> * 1000) < int (2 ^ 53)"
    using assms by simp
  then have "nat \<bar>i\<bar> * 1000 < 2 ^ 53"
    by (rule of_nat_less_imp_less)
  from to_double_small [OF this] show ?thesis
    by (cases "i < 0") (simp_all add: number_of_def)
qed

section \<open>The call log of an operation\<close>

lemma written_append: "written (cs @ ds) = written cs @ written ds"
  by (induction cs rule: written.induct) simp_all

lemma sent_headers_append: "sent_headers (cs @ ds) = sent_headers cs @ sent_headers ds"
  by (induction cs rule: sent_headers.induct) simp_all

lemma written_Req_write: "written [Req_write d] = payload_bytes d"
  by (cases d) simp_all

lemma calls_reject [simp]: "calls (reject e p) = calls p"
  by (simp add: reject_def)

lemma calls_resolve [simp]: "calls (resolve r p) = calls p"
  by (simp add: resolve_def)

lemma res_reject [simp]: "res (reject e p) = res p"
  by (simp add: reject_def)

lemma res_resolve [simp]: "res (resolve r p) = res p"
  by (simp add: resolve_def)

lemma payload_reject [simp]: "payload (reject e p) = payload p"
  by (simp add: reject_def)

lemma payload_resolve [simp]: "payload (resolve r p) = payload p"
  by (simp add: resolve_def)

lemma armed_reject [simp]: "armed (reject e p) = armed p"
  by (simp add: reject_def)

lemma armed_resolve [simp]: "armed (resolve r p) = armed p"
  by (simp add: resolve_def)

lemma calls_on_event:
  "calls (on_event E opts p e) = calls p @ (if e = ReqTimeout then [Req_destroy] else [])"
  by (cases e) (simp_all add: Let_def split: option.splits)

lemma calls_foldl:
  "calls (foldl (on_event E opts) p es) = calls p @ replicate (count_list es ReqTimeout) Req_destroy"
proof (induction es arbitrary: p)
  case Nil
  show ?case by simp
next
  case (Cons e es)
  show ?case
    by (simp add: Cons.IH calls_on_event replicate_app_Cons_same)
qed

lemma payload_on_event: "payload (on_event E opts p e) = payload p"
  by (cases e) (simp_all add: Let_def split: option.splits)

lemma payload_foldl: "payload (foldl (on_event E opts) p es) = payload p"
  by (induction es arbitrary: p) (simp_all add: payload_on_event)

lemma armed_on_event: "armed (on_event E opts p e) = armed p"
  by (cases e) (simp_all add: Let_def split: option.splits)

lemma armed_foldl: "armed (foldl (on_event E opts) p es) = armed p"
  by (induction es arbitrary: p) (simp_all add: armed_on_event)

lemma written_replicate_destroy: "written (replicate n Req_destroy) = []"
  by (induction n) simp_all

lemma sent_headers_replicate_destroy: "sent_headers (replicate n Req_destroy) = []"
  by (induction n) simp_all

lemma settled_on_event: "promise p = Some x \<Longrightarrow> promise (on_event E opts p e) = Some x"
  by (cases e) (simp_all add: reject_def resolve_def Let_def split: option.splits)

lemma settled_foldl: "promise p = Some x \<Longrightarrow> promise (foldl (on_event E opts) p es) = Some x"
  by (induction es arbitrary: p) (simp_all add: settled_on_event)

text \<open>
  \<open>sendRequest\<close> in two cases: a call threw while the request was set up, or the
  request was sent and the events arrive.
\<close>

lemma sendRequest_failed:
  assumes "setup_failure E opts = Some e"
  shows "sendRequest E opts d es =
     \<lparr>promise = Some (Inl e), res = None, chunks = [],
      calls = Req_request (if protocol opts = ''https:'' then Https else Http) opts
              # (if request_throws E opts then []
                 else (case timeout_ms opts of None \<Rightarrow> [] | Some ms \<Rightarrow> [Req_setTimeout ms])),
      armed = None, payload = d\<rparr>"
  using assms
  by (auto simp: sendRequest_def setup_failure_def Let_def split: option.splits if_splits)

lemma sendRequest_sent:
  assumes "setup_failure E opts = None"
  shows "sendRequest E opts d es =
     foldl (on_event E opts)
       \<lparr>promise = None, res = None, chunks = [],
        calls = Req_request (if protocol opts = ''https:'' then Https else Http) opts
                # (case timeout_ms opts of None \<Rightarrow> [] | Some ms \<Rightarrow> [Req_setTimeout ms])
                @ (if truthy d then [Req_write d] else []) @ [Req_end],
        armed = (case timeout_ms opts of None \<Rightarrow> None | Some ms \<Rightarrow> setTimeout_arms ms),
        payload = d\<rparr>
       es"
  using assms
  by (auto simp: sendRequest_def setup_failure_def write_end_listen_def Let_def
      split: option.splits if_splits)

lemma sendRequest_append:
  "setup_failure E opts = None
   \<Longrightarrow> sendRequest E opts d (es @ fs) = foldl (on_event E opts) (sendRequest E opts d es) fs"
  by (simp add: sendRequest_sent)

lemma sendRequest_promise_failed:
  "setup_failure E opts = Some e \<Longrightarrow> promise (sendRequest E opts d es) = Some (Inl e)"
  by (simp add: sendRequest_failed)

lemma pending_not_failed:
  "promise (sendRequest E opts d es) = None \<Longrightarrow> setup_failure E opts = None"
  by (cases "setup_failure E opts") (simp_all add: sendRequest_promise_failed)

lemma sendRequest_pending: "setup_failure E opts = None \<Longrightarrow> promise (sendRequest E opts d []) = None"
  by (simp add: sendRequest_sent)

lemma sendRequest_payload: "payload (sendRequest E opts d es) = d"
  by (cases "setup_failure E opts") (simp_all add: sendRequest_sent sendRequest_failed payload_foldl)

lemma sendRequest_sent_headers: "sent_headers (calls (sendRequest E opts d es)) = [headers opts]"
  by (cases "setup_failure E opts")
    (simp_all add: sendRequest_sent sendRequest_failed calls_foldl sent_headers_append
      sent_headers_replicate_destroy split: option.splits)

lemma sendRequest_written:
  "written (calls (sendRequest E opts d es))
     = (if setup_failure E opts = None \<and> truthy d then payload_bytes d else [])"
  by (cases "setup_failure E opts")
    (simp_all add: sendRequest_sent sendRequest_failed calls_foldl written_append
      written_replicate_destroy written_Req_write split: option.splits)

lemma sendRequest_write_iff:
  "Req_write v \<in> set (calls (sendRequest E opts d es))
     \<longleftrightarrow> setup_failure E opts = None \<and> truthy d \<and> v = d"
  by (cases "setup_failure E opts")
    (auto simp: sendRequest_sent sendRequest_failed calls_foldl split: option.splits)

lemma sendRequest_end_iff:
  "Req_end \<in> set (calls (sendRequest E opts d es)) \<longleftrightarrow> setup_failure E opts = None"
  by (cases "setup_failure E opts")
    (auto simp: sendRequest_sent sendRequest_failed calls_foldl split: option.splits)

section \<open>Headers the transport accepts\<close>

lemma headers_refused_empty: "\<not> headers_refused Map.empty"
  by (simp add: headers_refused_def)

lemma headers_refused_upd:
  assumes "\<not> headers_refused h" and "checkIsHttpToken k" and "\<not> checkInvalidHeaderChar v"
  shows "\<not> headers_refused (h(k \<mapsto> v))"
  using assms unfolding headers_refused_def by (auto split: if_splits)

lemma headers_refused_upd_iff:
  assumes "checkIsHttpToken k" and "\<not> checkInvalidHeaderChar v"
    and "h k = None \<or> (\<exists>w. h k = Some w \<and> \<not> checkInvalidHeaderChar w)"
  shows "headers_refused (h(k \<mapsto> v)) \<longleftrightarrow> headers_refused h"
proof
  assume "headers_refused (h(k \<mapsto> v))"
  then obtain name val where nv: "(h(k \<mapsto> v)) name = Some val"
    and bad: "\<not> checkIsHttpToken name \<or> checkInvalidHeaderChar val"
    unfolding headers_refused_def by blast
  with assms(1,2) have "name \<noteq> k" by auto
  with nv have "h name = Some val" by simp
  with bad show "headers_refused h"
    unfolding headers_refused_def by blast
next
  assume "headers_refused h"
  then obtain name val where nv: "h name = Some val"
    and bad: "\<not> checkIsHttpToken name \<or> checkInvalidHeaderChar val"
    unfolding headers_refused_def by blast
  with assms(1,3) have "name \<noteq> k" by auto
  with nv have "(h(k \<mapsto> v)) name = Some val" by simp
  with bad show "headers_refused (h(k \<mapsto> v))"
    unfolding headers_refused_def by blast
qed

lemma token_Content_Length: "checkIsHttpToken ''Content-Length''"
  by (simp add: checkIsHttpToken_def token_char_def)

lemma token_Content_Type: "checkIsHttpToken ''Content-Type''"
  by (simp add: checkIsHttpToken_def token_char_def)

lemma token_Request_Timeout: "checkIsHttpToken ''Request-Timeout''"
  by (simp add: checkIsHttpToken_def token_char_def)

lemma token_Client: "checkIsHttpToken ''Client''"
  by (simp add: checkIsHttpToken_def token_char_def)

lemma valid_empty_value: "\<not> checkInvalidHeaderChar []"
  by (simp add: checkInvalidHeaderChar_def)

lemma valid_digits: "\<not> checkInvalidHeaderChar (toString_nat n)"
proof -
  have "header_value_byte c" if "c \<in> set (toString_nat n)" for c
    using toString_nat_digits [OF that] by (simp add: header_value_byte_def)
  then show ?thesis
    by (simp add: checkInvalidHeaderChar_def list_all_iff)
qed

lemma valid_content_types:
  "\<not> checkInvalidHeaderChar ''application/octet-stream''"
  "\<not> checkInvalidHeaderChar ''application/json;charset=utf-8''"
  "\<not> checkInvalidHeaderChar ''text/plain;charset=utf-8''"
  "\<not> checkInvalidHeaderChar ''application/x-www-form-urlencoded''"
  "\<not> checkInvalidHeaderChar ''text/plain''"
  "\<not> checkInvalidHeaderChar ''request-service''"
  by (simp_all add: checkInvalidHeaderChar_def header_value_byte_def)

lemma valid_timeouts:
  "\<not> checkInvalidHeaderChar ''5''" "\<not> checkInvalidHeaderChar ''0''"
  "\<not> checkInvalidHeaderChar ''-3''"
  by (simp_all add: checkInvalidHeaderChar_def header_value_byte_def)

section \<open>Malformed URLs\<close>

lemma makeReqOptions_invalid:
  "new_URL E url = None \<Longrightarrow> makeReqOptions E url h m = Inl InvalidUrl"
  by (simp add: makeReqOptions_def)

lemma example_env_invalid: "new_URL example_env ''httpbin.org/post'' = None"
  by (simp add: example_env_def example_url_def)

text \<open>
  Claim C7. When the \<open>URL\<close> constructor throws on the string, each of the six public
  operations fails with \<open>InvalidUrl\<close> and has made no call on the transport: no request
  was opened and nothing was written, whatever events the transport would have sent.
  Every operation is an \<open>async\<close> function, so the failure is the rejection of the
  promise it returns, decided before the first call on the transport.
\<close>

theorem invalid_url_fails_before_transport:
  assumes "new_URL E url = None"
  shows "promise (requestHead E url hdrs events) = Some (Inl InvalidUrl)
       \<and> calls (requestHead E url hdrs events) = []
       \<and> promise (requestGet E url hdrs events) = Some (Inl InvalidUrl)
       \<and> calls (requestGet E url hdrs events) = []
       \<and> promise (requestPost E url data hdrs events) = Some (Inl InvalidUrl)
       \<and> calls (requestPost E url data hdrs events) = []
       \<and> promise (requestPut E url data hdrs events) = Some (Inl InvalidUrl)
       \<and> calls (requestPut E url data hdrs events) = []
       \<and> promise (requestJson E url data hdrs events) = Some (Inl InvalidUrl)
       \<and> calls (requestJson E url data hdrs events) = []
       \<and> promise (requestForm E url formData hdrs events) = Some (Inl InvalidUrl)
       \<and> calls (requestForm E url formData hdrs events) = []"
  using assms
  by (simp add: requestHead_def requestGet_def requestPost_def requestPut_def postPut_def
      requestJson_def requestForm_def makeReqOptions_invalid rejected_early_def)

theorem invalid_url_fails_before_transport_witness:
  "new_URL example_env ''httpbin.org/post'' = None
   \<and> promise (requestGet example_env ''httpbin.org/post'' Map.empty [ReqTimeout])
       = Some (Inl InvalidUrl)
   \<and> calls (requestGet example_env ''httpbin.org/post'' Map.empty [ReqTimeout]) = []
   \<and> calls (requestForm example_env ''httpbin.org/post'' [(''number'', JNum 42)] Map.empty [])
       = []"
  using invalid_url_fails_before_transport [OF example_env_invalid]
    example_env_invalid by simp

section \<open>The timeout\<close>

lemma on_event_ReqTimeout_pending:
  "promise p = None \<Longrightarrow> promise (on_event E opts p ReqTimeout) = Some (Inl RequestTimedOut)"
  by (simp add: reject_def)

lemma example_options_timeout: "headers example_options ''Request-Timeout'' = Some ''5''"
  by (simp add: example_options_def)

lemma example_request_accepted:
  assumes "checkIsHttpToken k" and "\<not> checkInvalidHeaderChar v"
  shows "\<not> request_throws example_env (example_options\<lparr>headers := [k \<mapsto> v]\<rparr>)"
  using headers_refused_upd [OF headers_refused_empty assms]
  by (simp add: request_throws_def example_options_def example_env_def)

lemma example_options_accepted: "\<not> request_throws example_env example_options"
  using example_request_accepted [OF token_Request_Timeout valid_timeouts(1)]
  by (simp add: example_options_def)

lemma example_timeout_ms: "timeout_ms example_options = Some (Finite 5000)"
  by (simp add: timeout_ms_def example_options_def parseInt_5 number_of_def to_double_small)

lemma example_setup: "setup_failure example_env example_options = None"
  by (simp add: setup_failure_def example_options_accepted example_timeout_ms)

lemma example_sent:
  "sendRequest example_env example_options d es =
     foldl (on_event example_env example_options)
       \<lparr>promise = None, res = None, chunks = [],
        calls = [Req_request Https example_options, Req_setTimeout (Finite 5000)]
                @ (if truthy d then [Req_write d] else []) @ [Req_end],
        armed = Some 5000, payload = d\<rparr>
       es"
proof -
  have "protocol example_options = ''https:''"
    by (simp add: example_options_def)
  then show ?thesis
    by (simp add: sendRequest_sent [OF example_setup] example_timeout_ms)
qed

lemma example_pending_after_head:
  "promise (sendRequest example_env example_options JNull [ReqResponse example_message]) = None"
  by (simp add: example_sent)

text \<open>
  Claim C1 as it is stated, for every integer, fails. With \<open>Request-Timeout: -3\<close> the
  call \<open>req.setTimeout(-3000)\<close> throws: the operation fails with the range error, no
  timeout is armed and the request is never ended. With \<open>Request-Timeout: 0\<close> the call
  is made and arms nothing. And when the transport refuses the options, here for the
  protocol \<open>ftp:\<close>, \<open>req.setTimeout\<close> is not reached.
\<close>

theorem timeout_not_armed:
  "parseInt ''-3'' = Finite (- 3)
   \<and> promise (sendRequest example_env
                (example_options\<lparr>headers := [''Request-Timeout'' \<mapsto> ''-3'']\<rparr>) JNull [])
       = Some (Inl TimeoutOutOfRange)
   \<and> armed (sendRequest example_env
              (example_options\<lparr>headers := [''Request-Timeout'' \<mapsto> ''-3'']\<rparr>) JNull [])
       = None
   \<and> Req_end \<notin> set (calls (sendRequest example_env
                             (example_options\<lparr>headers := [''Request-Timeout'' \<mapsto> ''-3'']\<rparr>)
                             JNull []))
   \<and> parseInt ''0'' = Finite 0
   \<and> calls (sendRequest example_env
              (example_options\<lparr>headers := [''Request-Timeout'' \<mapsto> ''0'']\<rparr>) JNull [])
       = [Req_request Https (example_options\<lparr>headers := [''Request-Timeout'' \<mapsto> ''0'']\<rparr>),
          Req_setTimeout (Finite 0), Req_end]
   \<and> armed (sendRequest example_env
              (example_options\<lparr>headers := [''Request-Timeout'' \<mapsto> ''0'']\<rparr>) JNull [])
       = None
   \<and> headers (example_options\<lparr>protocol := ''ftp:''\<rparr>) ''Request-Timeout'' = Some ''5''
   \<and> calls (sendRequest example_env (example_options\<lparr>protocol := ''ftp:''\<rparr>) JNull [])
       = [Req_request Http (example_options\<lparr>protocol := ''ftp:''\<rparr>)]
   \<and> promise (sendRequest example_env (example_options\<lparr>protocol := ''ftp:''\<rparr>) JNull [])
       = Some (Inl RequestRefused)"
proof -
  let ?neg = "example_options\<lparr>headers := [''Request-Timeout'' \<mapsto> ''-3'']\<rparr>"
  let ?zero = "example_options\<lparr>headers := [''Request-Timeout'' \<mapsto> ''0'']\<rparr>"
  let ?ftp = "example_options\<lparr>protocol := ''ftp:''\<rparr>"
  have https: "protocol ?neg = ''https:''" "protocol ?zero = ''https:''"
    by (simp_all add: example_options_def)
  have neg_ms: "timeout_ms ?neg = Some (Finite (- 3000))"
    by (simp add: timeout_ms_def parseInt_minus_3 number_of_def to_double_small)
  have neg_acc: "\<not> request_throws example_env ?neg"
    by (rule example_request_accepted [OF token_Request_Timeout valid_timeouts(3)])
  have neg: "setup_failure example_env ?neg = Some TimeoutOutOfRange"
    by (simp add: setup_failure_def neg_acc neg_ms)
  have zero_ms: "timeout_ms ?zero = Some (Finite 0)"
    by (simp add: timeout_ms_def parseInt_0 number_of_def to_double_small)
  have zero_acc: "\<not> request_throws example_env ?zero"
    by (rule example_request_accepted [OF token_Request_Timeout valid_timeouts(2)])
  have zero: "setup_failure example_env ?zero = None"
    by (simp add: setup_failure_def zero_acc zero_ms)
  have ftp_thr: "request_throws example_env ?ftp"
    by (simp add: request_throws_def)
  have ftp: "setup_failure example_env ?ftp = Some RequestRefused"
    by (simp add: setup_failure_def ftp_thr)
  show ?thesis
    by (simp add: sendRequest_failed [OF neg] sendRequest_failed [OF ftp]
        sendRequest_sent [OF zero] neg_acc neg_ms zero_ms ftp_thr https
        parseInt_minus_3 parseInt_0 example_options_timeout)
qed

text \<open>
  Claim C1, as amended. When the transport accepts the options of the request, the
  header object has a \<open>Request-Timeout\<close> entry and \<open>parseInt\<close> reads from it an integer
  \<open>n\<close> with \<open>0 < n\<close> and \<open>n * 1000\<close> at most \<open>2 ^ 31 - 1\<close>, the longest timer of the
  platform: the first two calls of the dispatcher open the request and call
  \<open>req.setTimeout\<close> with \<open>n * 1000\<close> milliseconds, a timeout of \<open>n\<close> seconds is armed,
  and the request is sent. When the \<open>timeout\<close> event arrives while the operation is
  still pending, the request is destroyed and the operation fails with
  \<open>RequestTimedOut\<close>, which is not a \<open>TransportError\<close>, and no later event changes
  that.
\<close>

theorem timeout_armed_and_fails:
  "(\<not> request_throws E opts \<and> headers opts ''Request-Timeout'' = Some timeoutText
      \<and> parseInt timeoutText = Finite n \<and> 0 < n \<and> n * 1000 \<le> 2147483647
      \<longrightarrow> take 2 (calls (sendRequest E opts postData events))
           = [Req_request (if protocol opts = ''https:'' then Https else Http) opts,
              Req_setTimeout (Finite (n * 1000))]
          \<and> armed (sendRequest E opts postData events) = Some (nat (n * 1000))
          \<and> Req_end \<in> set (calls (sendRequest E opts postData events)))
   \<and> (promise (sendRequest E opts postData pre) = None
      \<longrightarrow> promise (sendRequest E opts postData (pre @ ReqTimeout # post))
            = Some (Inl RequestTimedOut)
          \<and> promise (sendRequest E opts postData (pre @ ReqTimeout # post))
            \<noteq> Some (Inl (TransportError cause))
          \<and> Req_destroy \<in> set (calls (sendRequest E opts postData (pre @ ReqTimeout # post))))"
proof (intro conjI impI)
  assume a: "\<not> request_throws E opts \<and> headers opts ''Request-Timeout'' = Some timeoutText
      \<and> parseInt timeoutText = Finite n \<and> 0 < n \<and> n * 1000 \<le> 2147483647"
  then have "\<bar>n\<bar> * 1000 < 2 ^ 53" by simp
  then have "times_1000 (Finite n) = Finite (n * 1000)"
    by (rule times_1000_small)
  with a have ms: "timeout_ms opts = Some (Finite (n * 1000))"
    by (simp add: timeout_ms_def)
  from a have ok: "setup_failure E opts = None"
    by (simp add: setup_failure_def ms)
  show "take 2 (calls (sendRequest E opts postData events))
           = [Req_request (if protocol opts = ''https:'' then Https else Http) opts,
              Req_setTimeout (Finite (n * 1000))]"
    by (simp add: sendRequest_sent [OF ok] calls_foldl ms)
  show "armed (sendRequest E opts postData events) = Some (nat (n * 1000))"
    using a by (simp add: sendRequest_sent [OF ok] armed_foldl ms)
  show "Req_end \<in> set (calls (sendRequest E opts postData events))"
    by (simp add: sendRequest_end_iff ok)
next
  assume pending: "promise (sendRequest E opts postData pre) = None"
  then have ok: "setup_failure E opts = None"
    by (rule pending_not_failed)
  have "promise (on_event E opts (sendRequest E opts postData pre) ReqTimeout)
          = Some (Inl RequestTimedOut)"
    using pending by (rule on_event_ReqTimeout_pending)
  then have *: "promise (sendRequest E opts postData (pre @ ReqTimeout # post))
          = Some (Inl RequestTimedOut)"
    by (simp add: sendRequest_append [OF ok] settled_foldl)
  show "promise (sendRequest E opts postData (pre @ ReqTimeout # post))
          = Some (Inl RequestTimedOut)" by (rule *)
  show "promise (sendRequest E opts postData (pre @ ReqTimeout # post))
          \<noteq> Some (Inl (TransportError cause))" by (simp add: *)
  show "Req_destroy \<in> set (calls (sendRequest E opts postData (pre @ ReqTimeout # post)))"
    by (simp add: sendRequest_sent [OF ok] calls_foldl)
qed

theorem timeout_armed_and_fails_witness:
  "\<not> request_throws example_env example_options
   \<and> headers example_options ''Request-Timeout'' = Some ''5''
   \<and> parseInt ''5'' = Finite 5
   \<and> promise (sendRequest example_env example_options JNull [ReqResponse example_message])
       = None
   \<and> take 2 (calls (sendRequest example_env example_options JNull
                      [ReqResponse example_message, ReqTimeout, ResEnd]))
       = [Req_request Https example_options, Req_setTimeout (Finite 5000)]
   \<and> armed (sendRequest example_env example_options JNull
              [ReqResponse example_message, ReqTimeout, ResEnd]) = Some 5000
   \<and> promise (sendRequest example_env example_options JNull
                [ReqResponse example_message, ReqTimeout, ResEnd])
       = Some (Inl RequestTimedOut)
   \<and> Req_destroy \<in> set (calls (sendRequest example_env example_options JNull
                                 [ReqResponse example_message, ReqTimeout, ResEnd]))"
proof -
  have https: "protocol example_options = ''https:''"
    by (simp add: example_options_def)
  show ?thesis
    using timeout_armed_and_fails [where opts = example_options and timeoutText = "''5''"
        and n = 5 and E = example_env and postData = JNull
        and events = "[ReqResponse example_message, ReqTimeout, ResEnd]"
        and pre = "[ReqResponse example_message]" and post = "[ResEnd]"]
      example_options_timeout parseInt_5 example_pending_after_head https
      example_options_accepted
    by simp
qed

section \<open>A response without a content type\<close>

lemma example_pending_after_data:
  "promise (sendRequest example_env example_options JNull
              [ReqResponse example_message, ResData ''{}'']) = None
   \<and> res (sendRequest example_env example_options JNull
              [ReqResponse example_message, ResData ''{}'']) = Some example_message"
  by (simp add: example_sent)

lemma on_event_ResEnd_missing:
  "promise p = None \<Longrightarrow> res p = Some r \<Longrightarrow> msg_headers r ''content-type'' = None
   \<Longrightarrow> promise (on_event E opts p ResEnd) = Some (Inl MissingContentType)"
  by (simp add: reject_def truthy_str_def)

lemma never_resolved_on_event:
  assumes "\<forall>r. res p = Some r \<longrightarrow> msg_headers r ''content-type'' = None"
    and "\<forall>r. e = ReqResponse r \<longrightarrow> msg_headers r ''content-type'' = None"
    and "\<forall>x. promise p \<noteq> Some (Inr x)"
  shows "(\<forall>r. res (on_event E opts p e) = Some r \<longrightarrow> msg_headers r ''content-type'' = None)
       \<and> (\<forall>x. promise (on_event E opts p e) \<noteq> Some (Inr x))"
  using assms
  by (cases e) (auto simp: reject_def resolve_def truthy_str_def Let_def split: option.splits)

lemma never_resolved_foldl:
  assumes "\<forall>r. res p = Some r \<longrightarrow> msg_headers r ''content-type'' = None"
    and "\<forall>r. ReqResponse r \<in> set es \<longrightarrow> msg_headers r ''content-type'' = None"
    and "\<forall>x. promise p \<noteq> Some (Inr x)"
  shows "promise (foldl (on_event E opts) p es) \<noteq> Some (Inr x)"
  using assms
proof (induction es arbitrary: p)
  case Nil
  then show ?case by simp
next
  case (Cons e es)
  have step: "(\<forall>r. res (on_event E opts p e) = Some r \<longrightarrow> msg_headers r ''content-type'' = None)
       \<and> (\<forall>x. promise (on_event E opts p e) \<noteq> Some (Inr x))"
    using Cons.prems by (intro never_resolved_on_event) auto
  have "promise (foldl (on_event E opts) (on_event E opts p e) es) \<noteq> Some (Inr x)"
    using step Cons.prems(2) by (intro Cons.IH) auto
  then show ?case by simp
qed

text \<open>
  Claim C2. When the response ends while the operation is still pending and its headers
  have no \<open>content-type\<close> entry, the operation fails with \<open>MissingContentType\<close>, and no
  later event changes that. When no response of a run has a \<open>content-type\<close> entry, the
  operation never yields a result. Neither statement looks at the status code: the
  response is any response, one with status 200 included.
\<close>

theorem missing_content_type_fails:
  "(promise (sendRequest E opts postData pre) = None
      \<and> res (sendRequest E opts postData pre) = Some r
      \<and> msg_headers r ''content-type'' = None
      \<longrightarrow> promise (sendRequest E opts postData (pre @ ResEnd # post))
            = Some (Inl MissingContentType))
   \<and> ((\<forall>r. ReqResponse r \<in> set events \<longrightarrow> msg_headers r ''content-type'' = None)
      \<longrightarrow> promise (sendRequest E opts postData events) \<noteq> Some (Inr result))"
proof (intro conjI impI)
  assume a: "promise (sendRequest E opts postData pre) = None
      \<and> res (sendRequest E opts postData pre) = Some r
      \<and> msg_headers r ''content-type'' = None"
  then have ok: "setup_failure E opts = None"
    by (intro pending_not_failed) auto
  from a have "promise (on_event E opts (sendRequest E opts postData pre) ResEnd)
          = Some (Inl MissingContentType)"
    by (intro on_event_ResEnd_missing) auto
  then show "promise (sendRequest E opts postData (pre @ ResEnd # post))
            = Some (Inl MissingContentType)"
    by (simp add: sendRequest_append [OF ok] settled_foldl)
next
  assume a: "\<forall>r. ReqResponse r \<in> set events \<longrightarrow> msg_headers r ''content-type'' = None"
  show "promise (sendRequest E opts postData events) \<noteq> Some (Inr result)"
  proof (cases "setup_failure E opts")
    case (Some e)
    then show ?thesis
      by (simp add: sendRequest_promise_failed)
  next
    case None
    have "sendRequest E opts postData events
            = foldl (on_event E opts) (sendRequest E opts postData []) events"
      using sendRequest_append [OF None, of postData "[]" events] by simp
    moreover have "promise (foldl (on_event E opts) (sendRequest E opts postData []) events)
            \<noteq> Some (Inr result)"
      using a by (intro never_resolved_foldl) (simp_all add: sendRequest_sent [OF None])
    ultimately show ?thesis
      by simp
  qed
qed

theorem missing_content_type_fails_witness:
  "promise (sendRequest example_env example_options JNull
              [ReqResponse example_message, ResData ''{}'']) = None
   \<and> res (sendRequest example_env example_options JNull
              [ReqResponse example_message, ResData ''{}'']) = Some example_message
   \<and> msg_headers example_message ''content-type'' = None
   \<and> msg_statusCode example_message = Some 200
   \<and> promise (sendRequest example_env example_options JNull
              [ReqResponse example_message, ResData ''{}'', ResEnd])
       = Some (Inl MissingContentType)
   \<and> (\<forall>result. promise (sendRequest example_env example_options JNull
                         [ReqResponse example_message, ResData ''{}'', ResEnd])
                \<noteq> Some (Inr result))"
proof -
  have no_type: "msg_headers example_message ''content-type'' = None"
    by (simp add: example_message_def)
  have status: "msg_statusCode example_message = Some 200"
    by (simp add: example_message_def)
  have all: "\<forall>r. ReqResponse r \<in> set [ReqResponse example_message, ResData ''{}'', ResEnd]
                \<longrightarrow> msg_headers r ''content-type'' = None"
    using no_type by simp
  show ?thesis
    using missing_content_type_fails [where E = example_env and opts = example_options
        and postData = JNull and pre = "[ReqResponse example_message, ResData ''{}'']"
        and r = example_message and post = "[]"
        and events = "[ReqResponse example_message, ResData ''{}'', ResEnd]"]
      example_pending_after_data no_type status all
    by simp
qed

text \<open>
  For comparison, a response that has a content type runs to a result, and the timeout
  that fires afterwards does not change it.
\<close>

lemma example_resolves:
  "promise (sendRequest example_env example_options JNull
              [ReqResponse (example_message\<lparr>msg_headers := [''content-type'' \<mapsto> ''text/plain'']\<rparr>),
               ResData ''fo'', ResData ''o'', ResEnd, ReqTimeout])
     = Some (Inr \<lparr>response = JStr ''foo'',
                   resp_headers = [''content-type'' \<mapsto> ''text/plain''],
                   host = ''httpbin.org'', resp_method = ''GET'', resp_path = ''/post?foo=bar'',
                   resp_protocol = ''https:'', statusCode = 200, statusMessage = ''OK''\<rparr>)"
  unfolding example_sent
  by (simp add: example_options_def example_message_def example_env_def resolve_def
      reject_def)

section \<open>The encoder\<close>

lemma falsy_payload_bytes: "\<not> truthy d \<Longrightarrow> payload_bytes d = []"
  by (cases d) simp_all

lemma sendRequest_end_written:
  "Req_end \<in> set (calls (sendRequest E opts d es))
   \<Longrightarrow> written (calls (sendRequest E opts d es)) = payload_bytes d"
  by (simp add: sendRequest_end_iff sendRequest_written falsy_payload_bytes)

lemma sendPost_sent_headers:
  "sent_headers (calls (sendPost E opts data ct es)) = [sendPost_headers (headers opts) data ct]"
  by (simp add: sendPost_def sendRequest_sent_headers)

lemma sendPost_sent_header:
  "sent_header k (calls (sendPost E opts data ct es)) = [sendPost_headers (headers opts) data ct k]"
  by (simp add: sent_header_def sendPost_sent_headers)

lemma sendPost_payload: "payload (sendPost E opts data ct es) = data"
  by (simp add: sendPost_def sendRequest_payload)

lemma sendPost_end_written:
  "Req_end \<in> set (calls (sendPost E opts data ct es))
   \<Longrightarrow> written (calls (sendPost E opts data ct es)) = payload_bytes data"
  unfolding sendPost_def by (rule sendRequest_end_written)

lemma sendPost_write_iff:
  "Req_write v \<in> set (calls (sendPost E opts data ct es))
     \<longleftrightarrow> setup_failure E (opts\<lparr>headers := sendPost_headers (headers opts) data ct\<rparr>) = None
         \<and> truthy data \<and> v = data"
  by (simp add: sendPost_def sendRequest_write_iff)

lemma sendPost_written:
  "written (calls (sendPost E opts data ct es))
     = (if setup_failure E (opts\<lparr>headers := sendPost_headers (headers opts) data ct\<rparr>) = None
           \<and> truthy data
        then payload_bytes data else [])"
  by (simp add: sendPost_def sendRequest_written)

lemma sendPost_headers_other:
  "k \<noteq> ''Content-Length'' \<Longrightarrow> k \<noteq> ''Content-Type'' \<Longrightarrow> sendPost_headers h data ct k = h k"
  by (simp add: sendPost_headers_def Let_def split: jsval.splits)

lemma sendPost_headers_type:
  "sendPost_headers h data ct ''Content-Type''
     = (if ct \<noteq> [] \<and> \<not> truthy_str (h ''Content-Type'') then Some ct else h ''Content-Type'')"
  by (simp add: sendPost_headers_def Let_def split: jsval.splits)

lemma sendPost_headers_length:
  "sendPost_headers h data ct ''Content-Length''
     = Some (toString_nat (length (payload_bytes data)))"
  by (cases data) (simp_all add: sendPost_headers_def Let_def toString_nat_0)

lemma sendPost_headers_eq:
  "sendPost_headers h data ct =
     (if ct \<noteq> [] \<and> \<not> truthy_str (h ''Content-Type'')
      then h(''Content-Length'' \<mapsto> toString_nat (length (payload_bytes data)),
             ''Content-Type'' \<mapsto> ct)
      else h(''Content-Length'' \<mapsto> toString_nat (length (payload_bytes data))))"
  by (cases data) (simp_all add: sendPost_headers_def Let_def toString_nat_0)

lemma sendPost_headers_accepted:
  assumes "\<not> headers_refused h" and "\<not> checkInvalidHeaderChar ct"
  shows "\<not> headers_refused (sendPost_headers h data ct)"
  unfolding sendPost_headers_eq
  using headers_refused_upd [OF headers_refused_upd [OF assms(1) token_Content_Length valid_digits]
      token_Content_Type assms(2)]
    headers_refused_upd [OF assms(1) token_Content_Length valid_digits]
  by simp

lemma makeReqOptions_valid:
  "new_URL E url = Some u \<Longrightarrow>
   \<exists>opts. makeReqOptions E url h m = Inr opts \<and> headers opts = h"
  by (simp add: makeReqOptions_def)

lemma JSON_stringify_shape:
  "JSON_stringify v = JUndefined \<or> (\<exists>s. JSON_stringify v = JStr s)"
  by (simp add: JSON_stringify_def split: option.splits)

lemma postPut_eq:
  assumes "makeReqOptions E url h m = Inr opts"
  shows "postPut E m url JNull h es = sendPost E opts JNull [] es"
    and "postPut E m url JUndefined h es = sendPost E opts JNull [] es"
    and "postPut E m url (JBuf b) h es = sendPost E opts (JBuf b) ''application/octet-stream'' es"
    and "postPut E m url (JArr xs) h es
           = sendPost E opts (JSON_stringify (JArr xs)) ''application/json;charset=utf-8'' es"
    and "postPut E m url (JObj kvs) h es
           = sendPost E opts (JSON_stringify (JObj kvs)) ''application/json;charset=utf-8'' es"
    and "postPut E m url (JStr s) h es = sendPost E opts (JStr s) ''text/plain;charset=utf-8'' es"
    and "postPut E m url (JNum n) h es
           = sendPost E opts (JStr (String (JNum n))) ''text/plain;charset=utf-8'' es"
    and "postPut E m url (JBool t) h es
           = sendPost E opts (JStr (String (JBool t))) ''text/plain;charset=utf-8'' es"
    and "postPut E m url (JDouble w) h es
           = sendPost E opts (JStr (String (JDouble w))) ''text/plain;charset=utf-8'' es"
  using assms by (simp_all add: postPut_def)

lemma postPut_shape:
  assumes "new_URL E url = Some u"
  shows "\<exists>opts d ct. headers opts = h \<and> postPut E m url data h es = sendPost E opts d ct es"
proof -
  obtain opts where o: "makeReqOptions E url h m = Inr opts" "headers opts = h"
    using makeReqOptions_valid [OF assms] by blast
  show ?thesis
    using o(2) postPut_eq [OF o(1)] by (cases data) metis+
qed

lemma requestJson_shape:
  assumes "new_URL E url = Some u"
  shows "\<exists>opts d ct. headers opts = h \<and> requestJson E url data h es = sendPost E opts d ct es"
proof -
  obtain opts where o: "makeReqOptions E url h ''POST'' = Inr opts" "headers opts = h"
    using makeReqOptions_valid [OF assms] by blast
  have eq: "requestJson E url data h es
      = sendPost E opts (JSON_stringify data) ''application/json;charset=utf-8'' es"
    by (simp add: requestJson_def o)
  from o(2) eq show ?thesis by blast
qed

lemma requestForm_eq:
  assumes "makeReqOptions E url h ''POST'' = Inr opts"
  shows "requestForm E url fd h es
      = sendPost E opts (JStr (join ''&'' (form_params fd [] (Object_keys fd))))
          ''application/x-www-form-urlencoded'' es"
  by (simp add: requestForm_def assms Let_def)

lemma requestForm_shape:
  assumes "new_URL E url = Some u"
  shows "\<exists>opts d ct. headers opts = h \<and> requestForm E url fd h es = sendPost E opts d ct es"
proof -
  obtain opts where o: "makeReqOptions E url h ''POST'' = Inr opts" "headers opts = h"
    using makeReqOptions_valid [OF assms] by blast
  from o(2) requestForm_eq [OF o(1)] show ?thesis by blast
qed

lemma encoded_shape:
  assumes "new_URL E url = Some u"
    and "op \<in> {requestPost E url data h es, requestPut E url data h es,
                requestJson E url data h es, requestForm E url fd h es}"
  shows "\<exists>opts d ct. headers opts = h \<and> op = sendPost E opts d ct es"
proof -
  from assms(2) consider "op = postPut E ''POST'' url data h es"
    | "op = postPut E ''PUT'' url data h es" | "op = requestJson E url data h es"
    | "op = requestForm E url fd h es"
    unfolding requestPost_def requestPut_def by blast
  then show ?thesis
  proof cases
    case 1
    then show ?thesis using postPut_shape [OF assms(1)] by simp
  next
    case 2
    then show ?thesis using postPut_shape [OF assms(1)] by simp
  next
    case 3
    then show ?thesis using requestJson_shape [OF assms(1)] by simp
  next
    case 4
    then show ?thesis using requestForm_shape [OF assms(1)] by simp
  qed
qed

lemma post_or_put:
  assumes "op \<in> {requestPost E url data h es, requestPut E url data h es}"
  shows "\<exists>m. op = postPut E m url data h es"
  using assms unfolding requestPost_def requestPut_def by blast

section \<open>The encoded requests\<close>

lemma example_env_valid:
  "new_URL example_env example_url
     = Some \<lparr>url_hostname = ''httpbin.org'', url_pathname = ''/post'',
             url_search = ''?foo=bar'', url_protocol = ''https:'', url_written_port = None\<rparr>"
  by (simp add: example_env_def example_url_def)

lemma example_makeReqOptions:
  "makeReqOptions example_env example_url h m
     = Inr \<lparr>hostname = ''httpbin.org'', path = ''/post?foo=bar'', port = Finite 443,
            protocol = ''https:'', headers = h, req_method = m\<rparr>"
  by (simp add: makeReqOptions_def example_env_valid URL_port_def)

text \<open>The example transport sends a request to the example address when it accepts the headers.\<close>

lemma example_setup_encoded:
  assumes "\<not> headers_refused h" and "h ''Request-Timeout'' = None"
    and "\<not> checkInvalidHeaderChar ct"
  shows "setup_failure example_env
     \<lparr>hostname = ''httpbin.org'', path = ''/post?foo=bar'', port = Finite 443,
      protocol = ''https:'', headers = sendPost_headers h d ct, req_method = m\<rparr> = None"
  using sendPost_headers_accepted [OF assms(1,3), of d] assms(2)
  by (simp add: setup_failure_def request_throws_def timeout_ms_def sendPost_headers_other
      example_env_def)

lemma example_sendPost_end:
  assumes "\<not> headers_refused h" and "h ''Request-Timeout'' = None"
    and "\<not> checkInvalidHeaderChar ct"
  shows "Req_end \<in> set (calls (sendPost example_env
     \<lparr>hostname = ''httpbin.org'', path = ''/post?foo=bar'', port = Finite 443,
      protocol = ''https:'', headers = h, req_method = m\<rparr> d ct es))"
  using example_setup_encoded [OF assms] by (simp add: sendPost_def sendRequest_end_iff)

text \<open>
  Claim C4. For a POST, PUT, JSON or form request on a URL that parses, the
  \<open>Content-Length\<close> header handed to the transport is the decimal length of the bytes
  of the body the dispatcher is handed: the bytes of a buffer, the UTF-8 bytes of a
  text, and \<open>0\<close> when there is no body. The caller's header object is arbitrary, so a
  \<open>Content-Length\<close> it already holds is replaced. When the request is sent, these are
  the bytes written to it.
\<close>

theorem content_length_is_payload_length:
  assumes "new_URL E url = Some u"
    and "op \<in> {requestPost E url data h es, requestPut E url data h es,
                requestJson E url data h es, requestForm E url fd h es}"
  shows "sent_header ''Content-Length'' (calls op)
           = [Some (toString_nat (length (payload_bytes (payload op))))]
       \<and> (Req_end \<in> set (calls op) \<longrightarrow> written (calls op) = payload_bytes (payload op))"
proof -
  obtain opts d ct where "op = sendPost E opts d ct es"
    using encoded_shape [OF assms] by blast
  then show ?thesis
    by (simp add: sendPost_sent_header sendPost_headers_length sendPost_payload
        sendPost_end_written)
qed

lemma toString_nat_3: "toString_nat (Suc (Suc (Suc 0))) = ''3''"
  by code_simp

lemma example_post_buffer:
  "requestPost example_env example_url (JBuf ''foo'') h es
     = sendPost example_env
         \<lparr>hostname = ''httpbin.org'', path = ''/post?foo=bar'', port = Finite 443,
          protocol = ''https:'', headers = h, req_method = ''POST''\<rparr>
         (JBuf ''foo'') ''application/octet-stream'' es"
  by (simp add: requestPost_def postPut_def example_makeReqOptions)

lemma example_length_99_accepted: "\<not> headers_refused [''Content-Length'' \<mapsto> ''99'']"
  by (rule headers_refused_upd [OF headers_refused_empty token_Content_Length])
    (simp add: checkInvalidHeaderChar_def header_value_byte_def)

theorem content_length_is_payload_length_witness:
  "new_URL example_env example_url
     = Some \<lparr>url_hostname = ''httpbin.org'', url_pathname = ''/post'',
             url_search = ''?foo=bar'', url_protocol = ''https:'', url_written_port = None\<rparr>
   \<and> payload (requestPost example_env example_url (JBuf ''foo'')
                [''Content-Length'' \<mapsto> ''99''] []) = JBuf ''foo''
   \<and> sent_header ''Content-Length''
         (calls (requestPost example_env example_url (JBuf ''foo'')
                   [''Content-Length'' \<mapsto> ''99''] [])) = [Some ''3'']
   \<and> Req_end \<in> set (calls (requestPost example_env example_url (JBuf ''foo'')
                             [''Content-Length'' \<mapsto> ''99''] []))
   \<and> written (calls (requestPost example_env example_url (JBuf ''foo'')
                        [''Content-Length'' \<mapsto> ''99''] [])) = ''foo''"
proof -
  have p: "payload (requestPost example_env example_url (JBuf ''foo'')
                [''Content-Length'' \<mapsto> ''99''] []) = JBuf ''foo''"
    by (simp add: example_post_buffer sendPost_payload)
  have e: "Req_end \<in> set (calls (requestPost example_env example_url (JBuf ''foo'')
                             [''Content-Length'' \<mapsto> ''99''] []))"
    unfolding example_post_buffer
    by (rule example_sendPost_end [OF example_length_99_accepted _ valid_content_types(1)])
      simp
  show ?thesis
    using content_length_is_payload_length [OF example_env_valid,
        where op = "requestPost example_env example_url (JBuf ''foo'')
                      [''Content-Length'' \<mapsto> ''99''] []"
          and data = "JBuf ''foo''" and h = "[''Content-Length'' \<mapsto> ''99'']" and es = "[]"]
      example_env_valid p e toString_nat_3
    by simp
qed

lemma example_json_options:
  "requestJson example_env example_url data h es
     = sendPost example_env
         \<lparr>hostname = ''httpbin.org'', path = ''/post?foo=bar'', port = Finite 443,
          protocol = ''https:'', headers = h, req_method = ''POST''\<rparr>
         (JSON_stringify data) ''application/json;charset=utf-8'' es"
  by (simp add: requestJson_def example_makeReqOptions)

lemma example_post_string:
  "requestPost example_env example_url (JStr s) h es
     = sendPost example_env
         \<lparr>hostname = ''httpbin.org'', path = ''/post?foo=bar'', port = Finite 443,
          protocol = ''https:'', headers = h, req_method = ''POST''\<rparr>
         (JStr s) ''text/plain;charset=utf-8'' es"
  by (simp add: requestPost_def postPut_def example_makeReqOptions)

text \<open>
  Claim C5 as it is stated, for any \<open>Content-Type\<close> entry, fails on an entry that is
  the empty string: \<open>!options.headers["Content-Type"]\<close> reads it as absent and the
  default of the mode replaces it.
\<close>

theorem empty_content_type_overwritten:
  "[''Content-Type'' \<mapsto> []] ''Content-Type'' = Some []
   \<and> sent_header ''Content-Type''
         (calls (requestJson example_env example_url (JObj []) [''Content-Type'' \<mapsto> []] []))
       = [Some ''application/json;charset=utf-8'']"
  by (simp add: example_json_options sendPost_sent_header sendPost_headers_type truthy_str_def)

text \<open>
  Claim C5, as amended. For a POST, PUT, JSON or form request on a URL that parses: when
  the caller's header object holds a \<open>Content-Type\<close> entry that is not the empty
  string, the header handed to the transport has that value; and every header other than
  \<open>Content-Length\<close> and \<open>Content-Type\<close> is handed on as the caller gave it.
\<close>

theorem content_type_kept_and_frame:
  assumes "new_URL E url = Some u"
    and "op \<in> {requestPost E url data h es, requestPut E url data h es,
                requestJson E url data h es, requestForm E url fd h es}"
  shows "(h ''Content-Type'' = Some c \<and> c \<noteq> []
            \<longrightarrow> sent_header ''Content-Type'' (calls op) = [Some c])
       \<and> (k \<noteq> ''Content-Length'' \<and> k \<noteq> ''Content-Type''
            \<longrightarrow> sent_header k (calls op) = [h k])"
proof -
  obtain opts d ct where "op = sendPost E opts d ct es" and "headers opts = h"
    using encoded_shape [OF assms] by blast
  then show ?thesis
    by (simp add: sendPost_sent_header sendPost_headers_type sendPost_headers_other
        truthy_str_def)
qed

theorem content_type_kept_and_frame_witness:
  "new_URL example_env example_url
     = Some \<lparr>url_hostname = ''httpbin.org'', url_pathname = ''/post'',
             url_search = ''?foo=bar'', url_protocol = ''https:'', url_written_port = None\<rparr>
   \<and> [''Content-Type'' \<mapsto> ''text/plain'', ''Client'' \<mapsto> ''request-service''] ''Content-Type''
       = Some ''text/plain''
   \<and> sent_header ''Content-Type''
         (calls (requestJson example_env example_url (JObj [])
                   [''Content-Type'' \<mapsto> ''text/plain'', ''Client'' \<mapsto> ''request-service''] []))
       = [Some ''text/plain'']
   \<and> sent_header ''Client''
         (calls (requestJson example_env example_url (JObj [])
                   [''Content-Type'' \<mapsto> ''text/plain'', ''Client'' \<mapsto> ''request-service''] []))
       = [Some ''request-service'']"
  using content_type_kept_and_frame [OF example_env_valid,
      where op = "requestJson example_env example_url (JObj [])
                    [''Content-Type'' \<mapsto> ''text/plain'', ''Client'' \<mapsto> ''request-service''] []"
        and data = "JObj []"
        and h = "[''Content-Type'' \<mapsto> ''text/plain'', ''Client'' \<mapsto> ''request-service'']"
        and es = "[]" and c = "''text/plain''" and k = "''Client''"]
    example_env_valid
  by simp

text \<open>
  Claim C3 as it is stated applies a default only when the caller did not set
  \<open>Content-Type\<close>. That fails when the caller set it to the empty string: the text
  default is applied.
\<close>

theorem empty_content_type_gets_default:
  "[''Content-Type'' \<mapsto> ''''] ''Content-Type'' = Some ''''
   \<and> sent_header ''Content-Type''
         (calls (requestPost example_env example_url (JStr ''Hello, World!'')
                   [''Content-Type'' \<mapsto> ''''] []))
       = [Some ''text/plain;charset=utf-8'']"
  by (simp add: example_post_string sendPost_sent_header sendPost_headers_type truthy_str_def)

text \<open>
  Claim C3, as amended. For \<open>requestPost\<close> and \<open>requestPut\<close> on a URL that parses,
  the shape of the data decides the body the dispatcher is handed and the default
  content type: for \<open>null\<close> and \<open>undefined\<close> there is no body, nothing is written and
  \<open>Content-Type\<close> stays as the caller gave it; a buffer is handed on as it is, with
  default \<open>application/octet-stream\<close>; an array or object is handed on as its JSON
  text, with default \<open>application/json;charset=utf-8\<close>; a string is handed on as it
  is, with default \<open>text/plain;charset=utf-8\<close>. The default is applied when the
  caller's \<open>Content-Type\<close> is absent or the empty string, and otherwise the caller's
  value stays. When the request is sent, the bytes written are the bytes of that body.
\<close>

theorem postPut_mode_by_shape:
  assumes "new_URL E url = Some u"
    and "op \<in> {requestPost E url data h es, requestPut E url data h es}"
  shows "(data = JNull \<or> data = JUndefined
            \<longrightarrow> payload op = JNull \<and> (\<forall>v. Req_write v \<notin> set (calls op))
               \<and> sent_header ''Content-Type'' (calls op) = [h ''Content-Type''])
       \<and> (data = JBuf b
            \<longrightarrow> payload op = JBuf b
               \<and> sent_header ''Content-Type'' (calls op)
                   = [if h ''Content-Type'' = None \<or> h ''Content-Type'' = Some ''''
                      then Some ''application/octet-stream'' else h ''Content-Type''])
       \<and> (data = JArr xs \<or> data = JObj kvs
            \<longrightarrow> (\<exists>t. stringify data = Some t \<and> payload op = JStr t)
               \<and> sent_header ''Content-Type'' (calls op)
                   = [if h ''Content-Type'' = None \<or> h ''Content-Type'' = Some ''''
                      then Some ''application/json;charset=utf-8'' else h ''Content-Type''])
       \<and> (data = JStr s
            \<longrightarrow> payload op = JStr s
               \<and> sent_header ''Content-Type'' (calls op)
                   = [if h ''Content-Type'' = None \<or> h ''Content-Type'' = Some ''''
                      then Some ''text/plain;charset=utf-8'' else h ''Content-Type''])
       \<and> (Req_end \<in> set (calls op) \<longrightarrow> written (calls op) = payload_bytes (payload op))"
proof -
  obtain m where op: "op = postPut E m url data h es"
    using post_or_put [OF assms(2)] by blast
  obtain opts where o: "makeReqOptions E url h m = Inr opts" "headers opts = h"
    using makeReqOptions_valid [OF assms(1)] by blast
  note eqs = postPut_eq [OF o(1)]
  have m_absent: "data = JNull \<or> data = JUndefined
            \<longrightarrow> payload op = JNull \<and> (\<forall>v. Req_write v \<notin> set (calls op))
               \<and> sent_header ''Content-Type'' (calls op) = [h ''Content-Type'']"
    by (auto simp: op eqs sendPost_write_iff sendPost_payload sendPost_sent_header
        sendPost_headers_type o(2))
  have m_bytes: "data = JBuf b
            \<longrightarrow> payload op = JBuf b
               \<and> sent_header ''Content-Type'' (calls op)
                   = [if h ''Content-Type'' = None \<or> h ''Content-Type'' = Some ''''
                      then Some ''application/octet-stream'' else h ''Content-Type'']"
    by (auto simp: op eqs sendPost_payload sendPost_sent_header
        sendPost_headers_type o(2) truthy_str_def)
  have m_object: "data = JArr xs \<or> data = JObj kvs
            \<longrightarrow> (\<exists>t. stringify data = Some t \<and> payload op = JStr t)
               \<and> sent_header ''Content-Type'' (calls op)
                   = [if h ''Content-Type'' = None \<or> h ''Content-Type'' = Some ''''
                      then Some ''application/json;charset=utf-8'' else h ''Content-Type'']"
    by (auto simp: op eqs sendPost_payload sendPost_sent_header JSON_stringify_def
        sendPost_headers_type o(2) truthy_str_def)
  have m_text: "data = JStr s
            \<longrightarrow> payload op = JStr s
               \<and> sent_header ''Content-Type'' (calls op)
                   = [if h ''Content-Type'' = None \<or> h ''Content-Type'' = Some ''''
                      then Some ''text/plain;charset=utf-8'' else h ''Content-Type'']"
    by (auto simp: op eqs sendPost_payload sendPost_sent_header
        sendPost_headers_type o(2) truthy_str_def)
  obtain opts' d ct where "op = sendPost E opts' d ct es"
    using postPut_shape [OF assms(1), of h m data es] op by blast
  then have m_wire: "Req_end \<in> set (calls op) \<longrightarrow> written (calls op) = payload_bytes (payload op)"
    by (simp add: sendPost_payload sendPost_end_written)
  from m_absent m_bytes m_object m_text m_wire show ?thesis by blast
qed

lemma example_put:
  "requestPut example_env example_url data h es
     = postPut example_env ''PUT'' example_url data h es"
  by (simp add: requestPut_def)

lemma example_json_array:
  "stringify (JArr [JNum 1, JNull, JBool True, JNum (- 7), JStr ''a b''])
     = Some ([CHR ''['', CHR ''1'', CHR '','', CHR ''n'', CHR ''u'', CHR ''l'', CHR ''l'',
              CHR '','', CHR ''t'', CHR ''r'', CHR ''u'', CHR ''e'', CHR '','', CHR ''-'',
              CHR ''7'', CHR '','', CHR 0x22, CHR ''a'', CHR '' '', CHR ''b'', CHR 0x22,
              CHR '']''])"
  by code_simp

lemma example_json_object:
  "stringify (JObj [(''n'', JNum 42), (''u'', JUndefined), (''l'', JArr [JNum 1, JNum 2])])
     = Some ([CHR ''{'', CHR 0x22, CHR ''n'', CHR 0x22, CHR '':'', CHR ''4'', CHR ''2'',
              CHR '','', CHR 0x22, CHR ''l'', CHR 0x22, CHR '':'', CHR ''['', CHR ''1'',
              CHR '','', CHR ''2'', CHR '']'', CHR ''}''])"
  by code_simp

theorem postPut_mode_by_shape_witness:
  "new_URL example_env example_url
     = Some \<lparr>url_hostname = ''httpbin.org'', url_pathname = ''/post'',
             url_search = ''?foo=bar'', url_protocol = ''https:'', url_written_port = None\<rparr>
   \<and> payload (requestPost example_env example_url (JBuf ''foo'') Map.empty []) = JBuf ''foo''
   \<and> sent_header ''Content-Type''
         (calls (requestPost example_env example_url (JBuf ''foo'') Map.empty []))
       = [Some ''application/octet-stream'']
   \<and> Req_end \<in> set (calls (requestPost example_env example_url (JBuf ''foo'') Map.empty []))
   \<and> written (calls (requestPost example_env example_url (JBuf ''foo'') Map.empty [])) = ''foo''
   \<and> payload (requestPost example_env example_url
                (JArr [JNum 1, JNull, JBool True, JNum (- 7), JStr ''a b'']) Map.empty [])
       = JStr ([CHR ''['', CHR ''1'', CHR '','', CHR ''n'', CHR ''u'', CHR ''l'', CHR ''l'',
                CHR '','', CHR ''t'', CHR ''r'', CHR ''u'', CHR ''e'', CHR '','', CHR ''-'',
                CHR ''7'', CHR '','', CHR 0x22, CHR ''a'', CHR '' '', CHR ''b'', CHR 0x22,
                CHR '']''])
   \<and> payload (requestPost example_env example_url
                (JObj [(''n'', JNum 42), (''u'', JUndefined), (''l'', JArr [JNum 1, JNum 2])])
                Map.empty [])
       = JStr ([CHR ''{'', CHR 0x22, CHR ''n'', CHR 0x22, CHR '':'', CHR ''4'', CHR ''2'',
                CHR '','', CHR 0x22, CHR ''l'', CHR 0x22, CHR '':'', CHR ''['', CHR ''1'',
                CHR '','', CHR ''2'', CHR '']'', CHR ''}''])
   \<and> payload (requestPost example_env example_url (JStr ''Hello, World!'') Map.empty [])
       = JStr ''Hello, World!''
   \<and> sent_header ''Content-Type''
         (calls (requestPost example_env example_url (JStr ''Hello, World!'') Map.empty []))
       = [Some ''text/plain;charset=utf-8'']"
proof -
  have e: "Req_end \<in> set (calls (requestPost example_env example_url (JBuf ''foo'') Map.empty []))"
    unfolding example_post_buffer
    by (rule example_sendPost_end [OF headers_refused_empty _ valid_content_types(1)]) simp
  note inst = postPut_mode_by_shape [OF example_env_valid, where h = Map.empty and es = "[]"]
  have w_buf: "payload (requestPost example_env example_url (JBuf ''foo'') Map.empty []) = JBuf ''foo''
      \<and> sent_header ''Content-Type''
            (calls (requestPost example_env example_url (JBuf ''foo'') Map.empty []))
          = [Some ''application/octet-stream'']
      \<and> written (calls (requestPost example_env example_url (JBuf ''foo'') Map.empty []))
          = ''foo''"
    using inst [where op = "requestPost example_env example_url (JBuf ''foo'') Map.empty []"
          and data = "JBuf ''foo''" and b = "''foo''"] e
    by simp
  have w_arr: "payload (requestPost example_env example_url
                (JArr [JNum 1, JNull, JBool True, JNum (- 7), JStr ''a b'']) Map.empty [])
       = JStr ([CHR ''['', CHR ''1'', CHR '','', CHR ''n'', CHR ''u'', CHR ''l'', CHR ''l'',
                CHR '','', CHR ''t'', CHR ''r'', CHR ''u'', CHR ''e'', CHR '','', CHR ''-'',
                CHR ''7'', CHR '','', CHR 0x22, CHR ''a'', CHR '' '', CHR ''b'', CHR 0x22,
                CHR '']''])"
    using inst [where op = "requestPost example_env example_url
              (JArr [JNum 1, JNull, JBool True, JNum (- 7), JStr ''a b'']) Map.empty []"
          and data = "JArr [JNum 1, JNull, JBool True, JNum (- 7), JStr ''a b'']"
          and xs = "[JNum 1, JNull, JBool True, JNum (- 7), JStr ''a b'']"]
    unfolding example_json_array by simp
  have w_obj: "payload (requestPost example_env example_url
                (JObj [(''n'', JNum 42), (''u'', JUndefined), (''l'', JArr [JNum 1, JNum 2])])
                Map.empty [])
       = JStr ([CHR ''{'', CHR 0x22, CHR ''n'', CHR 0x22, CHR '':'', CHR ''4'', CHR ''2'',
                CHR '','', CHR 0x22, CHR ''l'', CHR 0x22, CHR '':'', CHR ''['', CHR ''1'',
                CHR '','', CHR ''2'', CHR '']'', CHR ''}''])"
    using inst [where op = "requestPost example_env example_url
              (JObj [(''n'', JNum 42), (''u'', JUndefined), (''l'', JArr [JNum 1, JNum 2])])
              Map.empty []"
          and data = "JObj [(''n'', JNum 42), (''u'', JUndefined), (''l'', JArr [JNum 1, JNum 2])]"
          and kvs = "[(''n'', JNum 42), (''u'', JUndefined), (''l'', JArr [JNum 1, JNum 2])]"]
    unfolding example_json_object by simp
  have w_str: "payload (requestPost example_env example_url (JStr ''Hello, World!'') Map.empty [])
       = JStr ''Hello, World!''
      \<and> sent_header ''Content-Type''
         (calls (requestPost example_env example_url (JStr ''Hello, World!'') Map.empty []))
       = [Some ''text/plain;charset=utf-8'']"
    using inst [where op = "requestPost example_env example_url (JStr ''Hello, World!'') Map.empty []"
          and data = "JStr ''Hello, World!''" and s = "''Hello, World!''"]
    by simp
  from example_env_valid e w_buf w_arr w_obj w_str show ?thesis
    by (intro conjI) (elim conjE, assumption)+
qed

lemma setup_failure_cong:
  assumes "request_throws E o1 = request_throws E o2" and "timeout_ms o1 = timeout_ms o2"
  shows "setup_failure E o1 = setup_failure E o2"
  using assms by (simp add: setup_failure_def)

lemma sendRequest_calls_tl:
  assumes "request_throws E o1 = request_throws E o2" and "timeout_ms o1 = timeout_ms o2"
    and "\<not> truthy d1" and "\<not> truthy d2"
  shows "tl (calls (sendRequest E o1 d1 es)) = tl (calls (sendRequest E o2 d2 es))"
proof (cases "setup_failure E o1")
  case None
  then have "setup_failure E o2 = None"
    using setup_failure_cong [OF assms(1,2)] by simp
  with None assms show ?thesis
    by (simp add: sendRequest_sent calls_foldl)
next
  case (Some e)
  then have "setup_failure E o2 = Some e"
    using setup_failure_cong [OF assms(1,2)] by simp
  with Some assms show ?thesis
    by (simp add: sendRequest_failed)
qed

lemma headers_refused_text_default:
  "headers_refused (sendPost_headers h (JStr []) ''text/plain;charset=utf-8'')
     = headers_refused (sendPost_headers h JNull [])"
proof (cases "truthy_str (h ''Content-Type'')")
  case True
  then show ?thesis
    by (simp add: sendPost_headers_eq)
next
  case False
  then have "(h(''Content-Length'' \<mapsto> ''0'')) ''Content-Type'' = None
      \<or> (\<exists>w. (h(''Content-Length'' \<mapsto> ''0'')) ''Content-Type'' = Some w
            \<and> \<not> checkInvalidHeaderChar w)"
    by (cases "h ''Content-Type''") (simp_all add: truthy_str_def valid_empty_value)
  from headers_refused_upd_iff [where h = "h(''Content-Length'' \<mapsto> ''0'')",
      OF token_Content_Type valid_content_types(3) this] False
  show ?thesis
    by (simp add: sendPost_headers_eq toString_nat_0)
qed

text \<open>
  Claim C9. For \<open>requestPost\<close> and \<open>requestPut\<close> with the empty string on a URL
  that parses: \<open>Content-Length\<close> is \<open>0\<close>, \<open>Content-Type\<close> is
  \<open>text/plain;charset=utf-8\<close> when the caller gave none, and \<open>req.write\<close> is never
  called, so no body byte is written. After the opening of the request the calls on the
  transport are those of the same operation with \<open>null\<close>.
\<close>

theorem empty_string_not_written:
  assumes "new_URL E url = Some u"
    and "op \<in> {requestPost E url (JStr '''') h es, requestPut E url (JStr '''') h es}"
  shows "sent_header ''Content-Length'' (calls op) = [Some ''0'']
       \<and> (h ''Content-Type'' = None
            \<longrightarrow> sent_header ''Content-Type'' (calls op) = [Some ''text/plain;charset=utf-8''])
       \<and> (\<forall>v. Req_write v \<notin> set (calls op))
       \<and> written (calls op) = []
       \<and> tl (calls (requestPost E url (JStr '''') h es)) = tl (calls (requestPost E url JNull h es))
       \<and> tl (calls (requestPut E url (JStr '''') h es)) = tl (calls (requestPut E url JNull h es))"
proof -
  obtain m where op: "op = postPut E m url (JStr '''') h es"
    using post_or_put [OF assms(2)] by blast
  obtain opts where o: "makeReqOptions E url h m = Inr opts" "headers opts = h"
    using makeReqOptions_valid [OF assms(1)] by blast
  note eqs = postPut_eq [OF o(1)]
  have hdrs: "sent_header ''Content-Length'' (calls op) = [Some ''0'']
       \<and> (h ''Content-Type'' = None
            \<longrightarrow> sent_header ''Content-Type'' (calls op) = [Some ''text/plain;charset=utf-8''])"
    by (simp add: op eqs sendPost_sent_header sendPost_headers_length sendPost_headers_type
        o(2) truthy_str_def toString_nat_0)
  have nowrite: "(\<forall>v. Req_write v \<notin> set (calls op)) \<and> written (calls op) = []"
    by (simp add: op eqs sendPost_write_iff sendPost_written)
  have same: "tl (calls (postPut E m' url (JStr '''') h es))
                = tl (calls (postPut E m' url JNull h es))" for m'
  proof -
    obtain opts' where o': "makeReqOptions E url h m' = Inr opts'"
      using makeReqOptions_valid [OF assms(1)] by blast
    show ?thesis
      unfolding postPut_eq [OF o'] sendPost_def
      by (rule sendRequest_calls_tl)
        (simp_all add: request_throws_def timeout_ms_def sendPost_headers_other
          headers_refused_text_default)
  qed
  from hdrs nowrite same [of "''POST''"] same [of "''PUT''"] show ?thesis
    by (simp add: requestPost_def requestPut_def)
qed

theorem empty_string_not_written_witness:
  "new_URL example_env example_url
     = Some \<lparr>url_hostname = ''httpbin.org'', url_pathname = ''/post'',
             url_search = ''?foo=bar'', url_protocol = ''https:'', url_written_port = None\<rparr>
   \<and> sent_header ''Content-Length''
         (calls (requestPut example_env example_url (JStr '''') Map.empty [])) = [Some ''0'']
   \<and> sent_header ''Content-Type''
         (calls (requestPut example_env example_url (JStr '''') Map.empty []))
       = [Some ''text/plain;charset=utf-8'']
   \<and> written (calls (requestPut example_env example_url (JStr '''') Map.empty [])) = []"
  using empty_string_not_written [OF example_env_valid,
      where op = "requestPut example_env example_url (JStr '''') Map.empty []"
        and h = Map.empty and es = "[]"]
    example_env_valid
  by simp


section \<open>Numbers and booleans as a body\<close>

lemma decimal_digit_codes:
  "48 \<le> (k :: nat) \<and> k \<le> 57
   \<Longrightarrow> k = 48 \<or> k = 49 \<or> k = 50 \<or> k = 51 \<or> k = 52 \<or> k = 53 \<or> k = 54 \<or> k = 55
       \<or> k = 56 \<or> k = 57"
  by arith

lemma decimal_digit_chars:
  "char_of (48 :: nat) = CHR ''0''" "char_of (49 :: nat) = CHR ''1''"
  "char_of (50 :: nat) = CHR ''2''" "char_of (51 :: nat) = CHR ''3''"
  "char_of (52 :: nat) = CHR ''4''" "char_of (53 :: nat) = CHR ''5''"
  "char_of (54 :: nat) = CHR ''6''" "char_of (55 :: nat) = CHR ''7''"
  "char_of (56 :: nat) = CHR ''8''" "char_of (57 :: nat) = CHR ''9''"
  by code_simp+

lemma sint_54_range: "\<bar>sint (n :: 54 word)\<bar> \<le> 2 ^ 53"
  using sint_ge [of n] sint_lt [of n] by simp

lemma parseInt_String_JNum: "parseInt (String (JNum n)) = Finite (sint n)"
  using parseInt_toString_int [OF sint_54_range [of n]] by simp

lemma String_42: "String (JNum 42) = ''42''"
  by code_simp

lemma String_minus_7: "String (JNum (- 7)) = ''-7''"
  by code_simp

lemma example_post_primitive:
  "data = JNum n \<or> data = JBool t \<or> data = JDouble w \<Longrightarrow>
   requestPost example_env example_url data h es
     = sendPost example_env
         \<lparr>hostname = ''httpbin.org'', path = ''/post?foo=bar'', port = Finite 443,
          protocol = ''https:'', headers = h, req_method = ''POST''\<rparr>
         (JStr (String data)) ''text/plain;charset=utf-8'' es"
  by (auto simp: requestPost_def postPut_def example_makeReqOptions)

lemma example_primitive_sent:
  assumes "data = JNum n \<or> data = JBool t \<or> data = JDouble w"
  shows "Req_end \<in> set (calls (requestPost example_env example_url data Map.empty es))"
  unfolding example_post_primitive [OF assms]
  by (rule example_sendPost_end [OF headers_refused_empty _ valid_content_types(3)]) simp

text \<open>
  Claim C10. For \<open>requestPost\<close> and \<open>requestPut\<close> on a URL that parses, with data that
  is a number or a boolean: the body handed to the dispatcher is the text \<open>String(data)\<close>.
  That text is \<open>true\<close> or \<open>false\<close> for a boolean; for an integer it is a decimal numeral
  that \<open>parseInt\<close> reads back as the same integer; for any other number it is the text
  the number is known by. \<open>Content-Type\<close> is \<open>text/plain;charset=utf-8\<close> when the caller
  gave none. When the request is sent, the bytes written are that text, and the
  operation is not rejected: before any event its promise is pending.
\<close>

theorem other_primitives_sent_as_text:
  assumes "new_URL E url = Some u"
    and "op \<in> {requestPost E url data h es, requestPut E url data h es}"
    and "data = JNum n \<or> data = JBool t \<or> data = JDouble w"
  shows "payload op = JStr (String data)
       \<and> (data = JBool True \<longrightarrow> String data = ''true'')
       \<and> (data = JBool False \<longrightarrow> String data = ''false'')
       \<and> (data = JNum n \<longrightarrow> parseInt (String data) = Finite (sint n)
              \<and> set (String data) \<subseteq> set ''-0123456789'')
       \<and> (data = JDouble w \<longrightarrow> String data = w)
       \<and> (h ''Content-Type'' = None
            \<longrightarrow> sent_header ''Content-Type'' (calls op) = [Some ''text/plain;charset=utf-8''])
       \<and> (Req_end \<in> set (calls op) \<longrightarrow> written (calls op) = String data)
       \<and> (Req_end \<in> set (calls (requestPost E url data h []))
            \<longrightarrow> promise (requestPost E url data h []) = None)
       \<and> (Req_end \<in> set (calls (requestPut E url data h []))
            \<longrightarrow> promise (requestPut E url data h []) = None)"
proof -
  obtain m where op: "op = postPut E m url data h es"
    using post_or_put [OF assms(2)] by blast
  have eq: "postPut E m' url data h es' = sendPost E opts (JStr (String data))
      ''text/plain;charset=utf-8'' es'" if "makeReqOptions E url h m' = Inr opts" for m' opts es'
    using assms(3) postPut_eq(7,8,9) [OF that] by auto
  obtain opts where o: "makeReqOptions E url h m = Inr opts" "headers opts = h"
    using makeReqOptions_valid [OF assms(1)] by blast
  have body: "payload op = JStr (String data)"
    by (simp add: op eq [OF o(1)] sendPost_payload)
  have bools: "(data = JBool True \<longrightarrow> String data = ''true'')
       \<and> (data = JBool False \<longrightarrow> String data = ''false'')
       \<and> (data = JDouble w \<longrightarrow> String data = w)"
    by auto
  have digits: "set (String (JNum n)) \<subseteq> set ''-0123456789''"
  proof
    fix c
    assume "c \<in> set (String (JNum n))"
    then have "c = CHR ''-'' \<or> (\<exists>k. c \<in> set (toString_nat k))"
      by (auto simp: toString_int_def split: if_splits)
    then have "c = CHR ''-'' \<or> (48 \<le> (of_char c :: nat) \<and> (of_char c :: nat) \<le> 57)"
      using toString_nat_digits by blast
    then have "c = CHR ''-'' \<or> (of_char c :: nat) = 48 \<or> (of_char c :: nat) = 49
        \<or> (of_char c :: nat) = 50 \<or> (of_char c :: nat) = 51 \<or> (of_char c :: nat) = 52
        \<or> (of_char c :: nat) = 53 \<or> (of_char c :: nat) = 54 \<or> (of_char c :: nat) = 55
        \<or> (of_char c :: nat) = 56 \<or> (of_char c :: nat) = 57"
      using decimal_digit_codes [of "of_char c"] by blast
    then have "c = CHR ''-'' \<or> c = char_of (48 :: nat) \<or> c = char_of (49 :: nat)
        \<or> c = char_of (50 :: nat) \<or> c = char_of (51 :: nat) \<or> c = char_of (52 :: nat)
        \<or> c = char_of (53 :: nat) \<or> c = char_of (54 :: nat) \<or> c = char_of (55 :: nat)
        \<or> c = char_of (56 :: nat) \<or> c = char_of (57 :: nat)"
      by (metis char_of_char)
    then show "c \<in> set ''-0123456789''"
      by (elim disjE) (simp_all add: decimal_digit_chars)
  qed
  have number: "data = JNum n \<longrightarrow> parseInt (String data) = Finite (sint n)
              \<and> set (String data) \<subseteq> set ''-0123456789''"
    using parseInt_String_JNum [of n] digits by blast
  have type: "h ''Content-Type'' = None
            \<longrightarrow> sent_header ''Content-Type'' (calls op) = [Some ''text/plain;charset=utf-8'']"
    by (simp add: op eq [OF o(1)] sendPost_sent_header sendPost_headers_type o(2) truthy_str_def)
  have wire: "Req_end \<in> set (calls op) \<longrightarrow> written (calls op) = String data"
    using sendPost_end_written [of E opts "JStr (String data)" "''text/plain;charset=utf-8''" es]
    by (simp add: op eq [OF o(1)])
  have pending: "Req_end \<in> set (calls (postPut E m' url data h []))
      \<longrightarrow> promise (postPut E m' url data h []) = None" for m'
  proof -
    obtain opts' where o': "makeReqOptions E url h m' = Inr opts'"
      using makeReqOptions_valid [OF assms(1)] by blast
    show ?thesis
      by (simp add: eq [OF o'] sendPost_def sendRequest_end_iff sendRequest_pending)
  qed
  from body bools number type wire pending [of "''POST''"] pending [of "''PUT''"]
  show ?thesis
    by (simp add: requestPost_def requestPut_def)
qed

theorem other_primitives_sent_as_text_witness:
  "new_URL example_env example_url
     = Some \<lparr>url_hostname = ''httpbin.org'', url_pathname = ''/post'',
             url_search = ''?foo=bar'', url_protocol = ''https:'', url_written_port = None\<rparr>
   \<and> payload (requestPost example_env example_url (JNum 42) Map.empty []) = JStr ''42''
   \<and> parseInt ''42'' = Finite 42
   \<and> sent_header ''Content-Type''
         (calls (requestPost example_env example_url (JNum 42) Map.empty []))
       = [Some ''text/plain;charset=utf-8'']
   \<and> Req_end \<in> set (calls (requestPost example_env example_url (JNum 42) Map.empty []))
   \<and> written (calls (requestPost example_env example_url (JNum 42) Map.empty [])) = ''42''
   \<and> promise (requestPost example_env example_url (JNum 42) Map.empty []) = None
   \<and> payload (requestPost example_env example_url (JNum (- 7)) Map.empty []) = JStr ''-7''
   \<and> written (calls (requestPost example_env example_url (JNum (- 7)) Map.empty [])) = ''-7''
   \<and> payload (requestPost example_env example_url (JBool True) Map.empty []) = JStr ''true''
   \<and> written (calls (requestPost example_env example_url (JBool False) Map.empty []))
       = ''false''
   \<and> written (calls (requestPost example_env example_url (JDouble ''1e+21'') Map.empty []))
       = ''1e+21''"
proof -
  note inst = other_primitives_sent_as_text [OF example_env_valid,
      where h = Map.empty and es = "[]"]
  note sent = example_primitive_sent [where es = "[]"]
  have w_42: "payload (requestPost example_env example_url (JNum 42) Map.empty []) = JStr ''42''
      \<and> parseInt ''42'' = Finite 42
      \<and> sent_header ''Content-Type''
            (calls (requestPost example_env example_url (JNum 42) Map.empty []))
          = [Some ''text/plain;charset=utf-8'']
      \<and> written (calls (requestPost example_env example_url (JNum 42) Map.empty [])) = ''42''
      \<and> promise (requestPost example_env example_url (JNum 42) Map.empty []) = None"
    using inst [where op = "requestPost example_env example_url (JNum 42) Map.empty []"
          and data = "JNum 42" and n = 42]
      sent [of "JNum 42" 42]
    unfolding String_42 by simp
  have w_7: "payload (requestPost example_env example_url (JNum (- 7)) Map.empty []) = JStr ''-7''
      \<and> written (calls (requestPost example_env example_url (JNum (- 7)) Map.empty [])) = ''-7''"
    using inst [where op = "requestPost example_env example_url (JNum (- 7)) Map.empty []"
          and data = "JNum (- 7)" and n = "- 7"]
      sent [of "JNum (- 7)" "- 7"]
    unfolding String_minus_7 by simp
  have w_true: "payload (requestPost example_env example_url (JBool True) Map.empty [])
        = JStr ''true''"
    using inst [where op = "requestPost example_env example_url (JBool True) Map.empty []"
          and data = "JBool True" and t = True]
    by simp
  have w_false: "written (calls (requestPost example_env example_url (JBool False) Map.empty []))
        = ''false''"
    using inst [where op = "requestPost example_env example_url (JBool False) Map.empty []"
          and data = "JBool False" and t = False]
      sent [of "JBool False" _ False]
    by simp
  have w_double: "written (calls (requestPost example_env example_url (JDouble ''1e+21'')
        Map.empty [])) = ''1e+21''"
    using inst [where op = "requestPost example_env example_url (JDouble ''1e+21'') Map.empty []"
          and data = "JDouble ''1e+21''" and w = "''1e+21''"]
      sent [of "JDouble ''1e+21''" _ _ "''1e+21''"]
    by simp
  from example_env_valid w_42 sent [of "JNum 42" 42] w_7 w_true w_false w_double
  show ?thesis by simp
qed

section \<open>The form request\<close>

lemma form_params_eq:
  "form_params fd params ks
     = params @ map (\<lambda>k. encodeURIComponent k @ ''=''
                          @ encodeURIComponent (String (get_prop fd k))) ks"
  by (induction ks arbitrary: params) simp_all

lemma get_prop_distinct:
  "distinct (map fst fd) \<Longrightarrow> (k, v) \<in> set fd \<Longrightarrow> get_prop fd k = v"
  by (simp add: get_prop_def)

lemma form_params_pairs:
  assumes "distinct (map fst fd)"
  shows "form_params fd [] (Object_keys fd)
     = map (\<lambda>(k, v). encodeURIComponent k @ ''='' @ encodeURIComponent (String v)) fd"
proof -
  have "map (\<lambda>k. encodeURIComponent k @ ''='' @ encodeURIComponent (String (get_prop fd k)))
          (map fst fd)
        = map (\<lambda>(k, v). encodeURIComponent k @ ''='' @ encodeURIComponent (String v)) fd"
    using get_prop_distinct [OF assms] by (auto simp: map_eq_conv)
  then show ?thesis
    by (simp add: form_params_eq Object_keys_def)
qed

lemma example_form_text:
  "join ''&''
     (map (\<lambda>(k, v). encodeURIComponent k @ ''='' @ encodeURIComponent (String v))
        [(''number'', JNum 42), (''text'', JStr ''foo'')])
   = ''number=42&text=foo''"
  by code_simp

lemma example_form:
  "requestForm example_env example_url fd h es
     = sendPost example_env
         \<lparr>hostname = ''httpbin.org'', path = ''/post?foo=bar'', port = Finite 443,
          protocol = ''https:'', headers = h, req_method = ''POST''\<rparr>
         (JStr (join ''&'' (form_params fd [] (Object_keys fd))))
         ''application/x-www-form-urlencoded'' es"
  by (simp add: requestForm_def example_makeReqOptions Let_def)

text \<open>
  Claim C8 as it is stated fails on a caller's \<open>Content-Type\<close> that is the empty
  string: \<open>requestForm\<close> then sends \<open>application/x-www-form-urlencoded\<close>, although the
  caller supplied an entry.
\<close>

theorem empty_content_type_replaced_by_form_type:
  "[''Content-Type'' \<mapsto> ''''] ''Content-Type'' = Some ''''
   \<and> sent_header ''Content-Type''
         (calls (requestForm example_env example_url
                   [(''number'', JNum 42), (''text'', JStr ''foo'')]
                   [''Content-Type'' \<mapsto> ''''] []))
       = [Some ''application/x-www-form-urlencoded'']"
  by (simp add: example_form sendPost_sent_header sendPost_headers_type truthy_str_def)

text \<open>
  Claim C8, as amended. For \<open>requestForm\<close> on a URL that parses, with a map whose keys
  are distinct (as the keys of an object are): the body handed to the dispatcher is the
  pairs of the map in the order of its keys, each pair the percent-encoded key, \<open>=\<close> and
  the percent-encoded text of the value, joined with \<open>&\<close>. \<open>Content-Type\<close> is
  \<open>application/x-www-form-urlencoded\<close> when the caller's entry is absent or the empty
  string, and otherwise the caller's value stays. The map \<open>{number: 42, text: "foo"}\<close>
  gives the body \<open>number=42&text=foo\<close>. When the request is sent, the bytes written
  are that body.
\<close>

theorem form_payload_percent_encoded:
  assumes "new_URL E url = Some u"
    and "distinct (map fst formData)"
  shows "payload (requestForm E url formData h es)
           = JStr (join ''&''
               (map (\<lambda>(k, v). encodeURIComponent k @ ''='' @ encodeURIComponent (String v))
                  formData))
       \<and> sent_header ''Content-Type'' (calls (requestForm E url formData h es))
           = [if h ''Content-Type'' = None \<or> h ''Content-Type'' = Some ''''
              then Some ''application/x-www-form-urlencoded'' else h ''Content-Type'']
       \<and> payload (requestForm E url [(''number'', JNum 42), (''text'', JStr ''foo'')] h es)
           = JStr ''number=42&text=foo''
       \<and> (Req_end \<in> set (calls (requestForm E url formData h es))
            \<longrightarrow> written (calls (requestForm E url formData h es))
                = join ''&''
                    (map (\<lambda>(k, v). encodeURIComponent k @ ''=''
                                     @ encodeURIComponent (String v))
                       formData))"
proof -
  obtain opts where o: "makeReqOptions E url h ''POST'' = Inr opts" "headers opts = h"
    using makeReqOptions_valid [OF assms(1)] by blast
  note eq = requestForm_eq [OF o(1)]
  have body: "payload (requestForm E url formData h es)
           = JStr (join ''&''
               (map (\<lambda>(k, v). encodeURIComponent k @ ''='' @ encodeURIComponent (String v))
                  formData))"
    by (simp only: eq sendPost_payload form_params_pairs [OF assms(2)])
  have type: "sent_header ''Content-Type'' (calls (requestForm E url formData h es))
           = [if h ''Content-Type'' = None \<or> h ''Content-Type'' = Some ''''
              then Some ''application/x-www-form-urlencoded'' else h ''Content-Type'']"
    by (auto simp: eq sendPost_sent_header sendPost_headers_type o(2) truthy_str_def)
  have "distinct (map fst [(''number'', JNum 42), (''text'', JStr ''foo'')])"
    by simp
  then have example: "payload (requestForm E url
        [(''number'', JNum 42), (''text'', JStr ''foo'')] h es) = JStr ''number=42&text=foo''"
    by (simp only: eq sendPost_payload form_params_pairs example_form_text)
  have wire: "Req_end \<in> set (calls (requestForm E url formData h es))
            \<longrightarrow> written (calls (requestForm E url formData h es))
                = join ''&''
                    (map (\<lambda>(k, v). encodeURIComponent k @ ''=''
                                     @ encodeURIComponent (String v))
                       formData)"
    using sendPost_end_written [of E opts
        "JStr (join ''&'' (form_params formData [] (Object_keys formData)))"
        "''application/x-www-form-urlencoded''" es]
    by (simp add: eq form_params_pairs [OF assms(2)])
  from body type example wire show ?thesis by blast
qed

lemma example_form_text_list:
  "join ''&''
     (map (\<lambda>(k, v). encodeURIComponent k @ ''='' @ encodeURIComponent (String v))
        [(''number'', JNum 42), (''text'', JStr ''foo''), (''list'', JArr [JNum 1, JNum 2]),
         (''a b'', JStr ''x&y=z''), (''neg'', JNum (- 7)), (''ok'', JBool True)])
   = ''number=42&text=foo&list=1%2C2&a%20b=x%26y%3Dz&neg=-7&ok=true''"
  by code_simp

lemma example_client_accepted: "\<not> headers_refused [''Client'' \<mapsto> ''request-service'']"
  by (rule headers_refused_upd [OF headers_refused_empty token_Client valid_content_types(6)])

theorem form_payload_percent_encoded_witness:
  "new_URL example_env example_url
     = Some \<lparr>url_hostname = ''httpbin.org'', url_pathname = ''/post'',
             url_search = ''?foo=bar'', url_protocol = ''https:'', url_written_port = None\<rparr>
   \<and> distinct (map fst [(''number'', JNum 42), (''text'', JStr ''foo''),
                        (''list'', JArr [JNum 1, JNum 2]), (''a b'', JStr ''x&y=z''),
                        (''neg'', JNum (- 7)), (''ok'', JBool True)])
   \<and> payload (requestForm example_env example_url
                [(''number'', JNum 42), (''text'', JStr ''foo''),
                 (''list'', JArr [JNum 1, JNum 2]), (''a b'', JStr ''x&y=z''),
                 (''neg'', JNum (- 7)), (''ok'', JBool True)]
                [''Client'' \<mapsto> ''request-service''] [])
       = JStr ''number=42&text=foo&list=1%2C2&a%20b=x%26y%3Dz&neg=-7&ok=true''
   \<and> sent_header ''Content-Type''
         (calls (requestForm example_env example_url
                   [(''number'', JNum 42), (''text'', JStr ''foo''),
                    (''list'', JArr [JNum 1, JNum 2]), (''a b'', JStr ''x&y=z''),
                    (''neg'', JNum (- 7)), (''ok'', JBool True)]
                   [''Client'' \<mapsto> ''request-service''] []))
       = [Some ''application/x-www-form-urlencoded'']
   \<and> Req_end \<in> set (calls (requestForm example_env example_url
                   [(''number'', JNum 42), (''text'', JStr ''foo''),
                    (''list'', JArr [JNum 1, JNum 2]), (''a b'', JStr ''x&y=z''),
                    (''neg'', JNum (- 7)), (''ok'', JBool True)]
                   [''Client'' \<mapsto> ''request-service''] []))
   \<and> written (calls (requestForm example_env example_url
                   [(''number'', JNum 42), (''text'', JStr ''foo''),
                    (''list'', JArr [JNum 1, JNum 2]), (''a b'', JStr ''x&y=z''),
                    (''neg'', JNum (- 7)), (''ok'', JBool True)]
                   [''Client'' \<mapsto> ''request-service''] []))
       = ''number=42&text=foo&list=1%2C2&a%20b=x%26y%3Dz&neg=-7&ok=true''"
proof -
  have d: "distinct (map fst [(''number'', JNum 42), (''text'', JStr ''foo''),
                        (''list'', JArr [JNum 1, JNum 2]), (''a b'', JStr ''x&y=z''),
                        (''neg'', JNum (- 7)), (''ok'', JBool True)])"
    by simp
  have e: "Req_end \<in> set (calls (requestForm example_env example_url fd
                   [''Client'' \<mapsto> ''request-service''] []))" for fd
    unfolding example_form
    by (rule example_sendPost_end [OF example_client_accepted _ valid_content_types(4)]) simp
  show ?thesis
    using form_payload_percent_encoded [OF example_env_valid d,
        where h = "[''Client'' \<mapsto> ''request-service'']" and es = "[]"]
      example_env_valid d e
    by (simp only: example_form_text_list) simp
qed

section \<open>The port of the request\<close>

lemma parseInt_port: "parseInt (toString_nat (unat (p :: 16 word))) = Finite (int (unat p))"
proof -
  have "unat p < 2 ^ LENGTH(16)"
    by (rule unsigned_less)
  then have "unat p < 2 ^ 53"
    by simp
  then show ?thesis
    by (rule parseInt_toString_nat)
qed

lemma example_env_secure_socket:
  "new_URL example_env ''wss://example.com:443/''
     = Some \<lparr>url_hostname = ''example.com'', url_pathname = ''/'', url_search = [],
             url_protocol = ''wss:'', url_written_port = Some 443\<rparr>"
  by (simp add: example_env_def example_url_def)

text \<open>
  Claim C6 as it is stated fails on a URL that writes the default port of a scheme other
  than \<open>http\<close> and \<open>https\<close>: for \<open>wss://example.com:443/\<close> the \<open>URL\<close> object reports
  no port, the protocol is not \<open>https:\<close>, and the options get port 80 although 443 is
  written in the URL.
\<close>

theorem written_default_port_lost:
  "new_URL example_env ''wss://example.com:443/''
     = Some \<lparr>url_hostname = ''example.com'', url_pathname = ''/'', url_search = [],
             url_protocol = ''wss:'', url_written_port = Some 443\<rparr>
   \<and> makeReqOptions example_env ''wss://example.com:443/'' Map.empty ''GET''
       = Inr \<lparr>hostname = ''example.com'', path = ''/'', port = Finite 80,
              protocol = ''wss:'', headers = Map.empty, req_method = ''GET''\<rparr>"
  by (simp add: makeReqOptions_def example_env_secure_socket URL_port_def default_port_def)

text \<open>
  Claim C6, as amended. For a URL that parses, the options are built and their port is:
  the port written in the URL when one is written and it is not the default port of the
  URL's scheme (21 for \<open>ftp\<close>, 80 for \<open>http\<close> and \<open>ws\<close>, 443 for \<open>https\<close> and \<open>wss\<close>);
  when no port is written, or the one written is the default of the scheme, 443 when the
  protocol is \<open>https:\<close> and 80 when it is anything else. For the protocols \<open>http:\<close> and
  \<open>https:\<close> that is the written port whenever one is written.
\<close>

theorem port_resolution:
  assumes "new_URL E url = Some u"
  shows "\<exists>opts. makeReqOptions E url hdrs meth = Inr opts
           \<and> (url_written_port u = Some p \<and> default_port (url_protocol u) \<noteq> Some (unat p)
                \<longrightarrow> port opts = Finite (int (unat p)))
           \<and> (url_written_port u = Some p
                \<and> (url_protocol u = ''http:'' \<or> url_protocol u = ''https:'')
                \<longrightarrow> port opts = Finite (int (unat p)))
           \<and> (url_written_port u = None
                \<or> (\<exists>q. url_written_port u = Some q
                        \<and> default_port (url_protocol u) = Some (unat q))
                \<longrightarrow> port opts = Finite (if url_protocol u = ''https:'' then 443 else 80))"
proof -
  let ?opts = "\<lparr>hostname = url_hostname u, path = url_pathname u @ url_search u,
      port = (if URL_port u \<noteq> [] then parseInt (URL_port u)
              else if url_protocol u = ''https:'' then Finite 443 else Finite 80),
      protocol = url_protocol u, headers = hdrs, req_method = meth\<rparr>"
  have built: "makeReqOptions E url hdrs meth = Inr ?opts"
    using assms by (simp add: makeReqOptions_def)
  have explicit: "url_written_port u = Some p \<and> default_port (url_protocol u) \<noteq> Some (unat p)
      \<longrightarrow> port ?opts = Finite (int (unat p))"
    by (simp add: URL_port_def toString_nat_not_Nil parseInt_port)
  have web: "url_written_port u = Some p
      \<and> (url_protocol u = ''http:'' \<or> url_protocol u = ''https:'')
      \<longrightarrow> port ?opts = Finite (int (unat p))"
  proof (intro impI, elim conjE)
    assume w: "url_written_port u = Some p"
      and pr: "url_protocol u = ''http:'' \<or> url_protocol u = ''https:''"
    show "port ?opts = Finite (int (unat p))"
    proof (cases "default_port (url_protocol u) = Some (unat p)")
      case False
      with w explicit show ?thesis by blast
    next
      case True
      with pr have e: "unat p = (if url_protocol u = ''https:'' then 443 else 80)"
        by (auto simp: default_port_def)
      have "int (unat p) = (if url_protocol u = ''https:'' then 443 else 80)"
        by (simp only: e) simp
      moreover have "port ?opts = Finite (if url_protocol u = ''https:'' then 443 else 80)"
        using w True by (simp add: URL_port_def)
      ultimately show ?thesis by (simp only:)
    qed
  qed
  have fallback: "url_written_port u = None
      \<or> (\<exists>q. url_written_port u = Some q \<and> default_port (url_protocol u) = Some (unat q))
      \<longrightarrow> port ?opts = Finite (if url_protocol u = ''https:'' then 443 else 80)"
    by (auto simp: URL_port_def)
  from built explicit web fallback show ?thesis by blast
qed

lemma example_env_local:
  "new_URL example_env ''http://localhost:8080/api''
     = Some \<lparr>url_hostname = ''localhost'', url_pathname = ''/api'', url_search = [],
             url_protocol = ''http:'', url_written_port = Some 8080\<rparr>"
  by (simp add: example_env_def example_url_def)

theorem port_resolution_witness:
  "new_URL example_env ''http://localhost:8080/api''
     = Some \<lparr>url_hostname = ''localhost'', url_pathname = ''/api'', url_search = [],
             url_protocol = ''http:'', url_written_port = Some 8080\<rparr>
   \<and> default_port ''http:'' \<noteq> Some (unat (8080 :: 16 word))
   \<and> (\<exists>opts. makeReqOptions example_env ''http://localhost:8080/api'' Map.empty ''GET''
                 = Inr opts \<and> port opts = Finite 8080)
   \<and> new_URL example_env example_url
       = Some \<lparr>url_hostname = ''httpbin.org'', url_pathname = ''/post'',
               url_search = ''?foo=bar'', url_protocol = ''https:'', url_written_port = None\<rparr>
   \<and> (\<exists>opts. makeReqOptions example_env example_url Map.empty ''GET'' = Inr opts
                 \<and> port opts = Finite 443)"
proof -
  have d: "default_port ''http:'' \<noteq> Some (unat (8080 :: 16 word))"
    by (simp add: default_port_def)
  have w_local: "\<exists>opts. makeReqOptions example_env ''http://localhost:8080/api'' Map.empty ''GET''
                 = Inr opts \<and> port opts = Finite 8080"
    using port_resolution [OF example_env_local, where p = 8080 and hdrs = Map.empty
        and meth = "''GET''"] d
    by auto
  have w_secure: "\<exists>opts. makeReqOptions example_env example_url Map.empty ''GET'' = Inr opts
                 \<and> port opts = Finite 443"
    using port_resolution [OF example_env_valid, where hdrs = Map.empty and meth = "''GET''"]
    by auto
  from example_env_local d w_local example_env_valid w_secure show ?thesis by blast
qed

end
